theory Spec2Isabelle
  imports Complex_Main
begin

section \<open>Python string operations used by the sources\<close>

text \<open>
  Python strings are modelled as \<^typ>\<open>string\<close>. The operations below are the ones the
  two modules \<^verbatim>\<open>change_detection.py\<close> and \<^verbatim>\<open>quality_gates.py\<close> call:
  \<^verbatim>\<open>str.startswith\<close>, \<^verbatim>\<open>str.endswith\<close>, the substring test \<^verbatim>\<open>needle in hay\<close>,
  \<^verbatim>\<open>str.replace\<close> and \<^verbatim>\<open>str.split()\<close>.
\<close>

fun startswith :: "string \<Rightarrow> string \<Rightarrow> bool" where
  "startswith s [] = True"
| "startswith [] (p # ps) = False"
| "startswith (c # cs) (p # ps) = (c = p \<and> startswith cs ps)"

definition endswith :: "string \<Rightarrow> string \<Rightarrow> bool" where
  "endswith s p = startswith (rev s) (rev p)"

text \<open>\<^verbatim>\<open>needle in hay\<close>: some suffix of \<open>hay\<close> starts with \<open>needle\<close>.\<close>

fun str_in :: "string \<Rightarrow> string \<Rightarrow> bool" where
  "str_in needle [] = (needle = [])"
| "str_in needle (c # cs) = (startswith (c # cs) needle \<or> str_in needle cs)"

section \<open>OptimizationEngine (change\_detection.py)\<close>

text \<open>
  A classification is the dictionary \<^verbatim>\<open>dict[str, list[str]]\<close> from category name to
  file list, kept as an association list in insertion order.
\<close>

type_synonym classifications = "(string \<times> string list) list"

text \<open>\<^verbatim>\<open>classifications.get(category, [])\<close>\<close>

definition get_files :: "classifications \<Rightarrow> string \<Rightarrow> string list" where
  "get_files cls category = (case map_of cls category of None \<Rightarrow> [] | Some fs \<Rightarrow> fs)"

record optimization_engine =
  enable_test_optimization :: bool
  enable_job_skipping :: bool

text \<open>The per-job estimates that \<^verbatim>\<open>__init__\<close> stores in \<^verbatim>\<open>self.job_time_estimates\<close>.\<close>

definition job_time_estimates :: "(string \<times> int) list" where
  "job_time_estimates =
     [(''tests'', 120), (''security'', 180), (''docs'', 60), (''lint'', 30), (''build'', 90)]"

definition job_time :: "string \<Rightarrow> int" where
  "job_time k = (case map_of job_time_estimates k of None \<Rightarrow> 0 | Some t \<Rightarrow> t)"

record change_patterns =
  has_source :: bool
  has_tests :: bool
  has_docs :: bool
  has_config :: bool
  has_dependencies :: bool
  has_ci :: bool
  has_build :: bool
  docs_only :: bool
  config_only :: bool
  tests_only :: bool
  ci_only :: bool

text \<open>Python's \<^verbatim>\<open>any\<close> on a list of booleans.\<close>

definition py_any :: "bool list \<Rightarrow> bool" where
  "py_any bs = (True \<in> set bs)"

definition analyze_change_patterns :: "classifications \<Rightarrow> change_patterns" where
  "analyze_change_patterns cls =
     (let hs = length (get_files cls ''source'') > 0;
          ht = length (get_files cls ''tests'') > 0;
          hdoc = length (get_files cls ''docs'') > 0;
          hc = length (get_files cls ''config'') > 0;
          hp = length (get_files cls ''dependencies'') > 0;
          hi = length (get_files cls ''ci'') > 0;
          hb = length (get_files cls ''build'') > 0
      in \<lparr> has_source = hs, has_tests = ht, has_docs = hdoc, has_config = hc,
           has_dependencies = hp, has_ci = hi, has_build = hb,
           docs_only = (hdoc \<and> \<not> py_any [hs, ht, hp, hb]),
           config_only = (hc \<and> \<not> py_any [hs, ht, hp, hdoc]),
           tests_only = (ht \<and> \<not> py_any [hs, hp]),
           ci_only = (hi \<and> \<not> py_any [hs, ht, hp, hdoc]) \<rparr>)"

record skip_recommendations =
  sr_tests :: bool
  sr_security :: bool
  sr_docs :: bool
  sr_lint :: bool
  sr_reasoning :: "(string \<times> string) list"

definition calculate_skip_recommendations ::
  "optimization_engine \<Rightarrow> change_patterns \<Rightarrow> skip_recommendations" where
  "calculate_skip_recommendations eng analysis =
     (let skip_tests = (\<not> has_source analysis \<and> \<not> has_tests analysis \<and>
                        \<not> has_dependencies analysis \<and> enable_test_optimization eng);
          skip_security = ((docs_only analysis \<or>
                            (has_config analysis \<and> \<not> has_dependencies analysis \<and>
                             \<not> has_source analysis)) \<and> enable_job_skipping eng);
          skip_docs = (\<not> has_docs analysis \<and> enable_job_skipping eng);
          skip_lint = (docs_only analysis \<and> enable_job_skipping eng)
      in \<lparr> sr_tests = skip_tests, sr_security = skip_security,
           sr_docs = skip_docs, sr_lint = skip_lint,
           sr_reasoning =
             [(''tests'', if skip_tests then ''No source, test, or dependency changes''
                          else ''Source/test/dependency changes detected''),
              (''security'', if skip_security then ''Only docs/config changes (no dependencies)''
                             else ''Source/dependency changes require security scan''),
              (''docs'', if skip_docs then ''No documentation changes''
                         else ''Documentation changes detected''),
              (''lint'', if skip_lint then ''Only documentation changes''
                         else ''Source/config changes require linting'')] \<rparr>)"

text \<open>
  \<^verbatim>\<open>sum([...])\<close> over booleans counts the true ones. The score is
  \<^verbatim>\<open>int((skipped_jobs / total_jobs) * 100)\<close>: a true division, a product and a truncation
  toward zero. With \<open>skipped_jobs \<le> 4\<close> both the quotient by 4 and its product with 100
  are exactly representable binary fractions, so rational arithmetic computes the value
  the float computation does.
\<close>

definition skipped_jobs :: "skip_recommendations \<Rightarrow> nat" where
  "skipped_jobs sr = sum_list (map of_bool [sr_tests sr, sr_security sr, sr_docs sr, sr_lint sr])"

definition py_int :: "rat \<Rightarrow> int" where
  "py_int q = (if 0 \<le> q then \<lfloor>q\<rfloor> else \<lceil>q\<rceil>)"

definition calculate_optimization_score :: "skip_recommendations \<Rightarrow> int" where
  "calculate_optimization_score sr =
     (let total_jobs = 4 in py_int ((of_nat (skipped_jobs sr) / of_nat total_jobs) * 100))"

definition calculate_time_savings :: "skip_recommendations \<Rightarrow> int" where
  "calculate_time_savings sr =
     (let t0 = 0;
          t1 = (if sr_tests sr then t0 + job_time ''tests'' else t0);
          t2 = (if sr_security sr then t1 + job_time ''security'' else t1);
          t3 = (if sr_docs sr then t2 + job_time ''docs'' else t2);
          t4 = (if sr_lint sr then t3 + job_time ''lint'' else t3)
      in t4)"

record optimization =
  skip_tests :: bool
  skip_security :: bool
  skip_docs :: bool
  skip_lint :: bool
  optimization_score :: int
  time_savings :: int
  change_analysis :: "change_patterns option"
  affected_tests :: "string list"
  reasoning :: "(string \<times> string) list"

definition empty_optimization_result :: optimization where
  "empty_optimization_result =
     \<lparr> skip_tests = False, skip_security = False, skip_docs = False, skip_lint = False,
       optimization_score = 0, time_savings = 0, change_analysis = None,
       affected_tests = [], reasoning = [(''message'', ''No changes detected'')] \<rparr>"

definition total_files :: "classifications \<Rightarrow> nat" where
  "total_files cls = sum_list (map (\<lambda>(category, files). length files) cls)"

definition calculate_optimization ::
  "optimization_engine \<Rightarrow> classifications \<Rightarrow> string list \<Rightarrow> optimization" where
  "calculate_optimization eng cls tests =
     (if total_files cls = 0 then empty_optimization_result
      else
        let analysis = analyze_change_patterns cls;
            sr = calculate_skip_recommendations eng analysis;
            score = calculate_optimization_score sr;
            savings = calculate_time_savings sr
        in \<lparr> skip_tests = sr_tests sr, skip_security = sr_security sr,
             skip_docs = sr_docs sr, skip_lint = sr_lint sr,
             optimization_score = score, time_savings = savings,
             change_analysis = Some analysis, affected_tests = tests,
             reasoning = sr_reasoning sr \<rparr>)"

text \<open>
  \<^verbatim>\<open>s.replace(old, new)\<close> replaces the non-overlapping occurrences of \<open>old\<close> from left to
  right; with an empty \<open>old\<close> Python puts \<open>new\<close> before every character and at the end.
\<close>

function replace_nonempty :: "string \<Rightarrow> string \<Rightarrow> string \<Rightarrow> string" where
  "replace_nonempty [] old new = []"
| "replace_nonempty (c # cs) old new =
     (if old \<noteq> [] \<and> startswith (c # cs) old
      then new @ replace_nonempty (drop (length old) (c # cs)) old new
      else c # replace_nonempty cs old new)"
  by pat_completeness auto
termination
  by (relation "measure (\<lambda>(s, old, new). length s)") auto

definition replace :: "string \<Rightarrow> string \<Rightarrow> string \<Rightarrow> string" where
  "replace s old new =
     (if old = [] then new @ concat (map (\<lambda>c. c # new) s) else replace_nonempty s old new)"

text \<open>
  \<^verbatim>\<open>Path(p).name\<close>: trailing slashes are dropped, then the name is what follows the last
  slash. (\<^verbatim>\<open>Path\<close> also removes \<^verbatim>\<open>.\<close> components, which is not modelled.)
\<close>

definition path_name :: "string \<Rightarrow> string" where
  "path_name p =
     rev (takeWhile (\<lambda>c. c \<noteq> CHR ''/'') (dropWhile (\<lambda>c. c = CHR ''/'') (rev p)))"

section \<open>DependencyAnalyzer (change\_detection.py)\<close>

text \<open>
  A Python \<^verbatim>\<open>set[str]\<close> is kept as a duplicate-free list in insertion order, so that
  loops over it can be run; \<open>set_add\<close> is \<^verbatim>\<open>set.add\<close>. Python iterates a set in an order
  of its own; the functions below return sets, whose value does not depend on that order.
  The dependency graph \<^verbatim>\<open>dict[str, DependencyNode]\<close> is an association list in insertion
  order. The field \<^verbatim>\<open>imports\<close> is named \<open>node_imports\<close> here.
\<close>

definition set_add :: "'a list \<Rightarrow> 'a \<Rightarrow> 'a list" where
  "set_add s x = (if x \<in> set s then s else s @ [x])"

record DependencyNode =
  module_path :: string
  node_imports :: "string list"
  imported_by :: "string list"
  test_files :: "string list"
  is_test :: bool

type_synonym dependency_graph = "(string \<times> DependencyNode) list"

definition is_test_file :: "string \<Rightarrow> bool" where
  "is_test_file file_path =
     (let file_name = path_name file_path
      in startswith file_name ''test_'' \<or> endswith file_name ''_test.py''
         \<or> endswith file_name ''_tests.py'' \<or> file_name = ''conftest.py''
         \<or> str_in ''tests/'' file_path \<or> str_in ''/test/'' file_path)"

text \<open>
  The node that \<^verbatim>\<open>build_dependency_graph\<close> creates for a file once its local imports are
  known (reading and parsing the file is outside the model).
\<close>

definition new_node :: "string \<Rightarrow> string list \<Rightarrow> string \<times> DependencyNode" where
  "new_node file local_imports =
     (file, \<lparr>module_path = file, node_imports = local_imports, imported_by = [],
             test_files = [], is_test = is_test_file file\<rparr>)"

definition import_matches_file :: "string \<Rightarrow> string \<Rightarrow> bool" where
  "import_matches_file import_name file_path =
     (let module_name = replace (replace file_path ''/'' ''.'') ''.py'' '''';
          module_name = (if endswith module_name ''.__init__''
                         then take (length module_name - 9) module_name else module_name)
      in import_name = module_name \<or> startswith import_name (module_name @ ''.''))"

text \<open>
  \<^verbatim>\<open>_build_reverse_dependencies\<close>: for every node and every import of it, every node whose
  file matches the import gets the importing file added to its \<^verbatim>\<open>imported_by\<close>. The loops
  read keys and imports only, which the pass does not change.
\<close>

definition build_reverse_dependencies :: "dependency_graph \<Rightarrow> dependency_graph" where
  "build_reverse_dependencies g =
     fold (\<lambda>(file_path, node) g1.
            fold (\<lambda>imported_module g2.
                   map (\<lambda>(other_file, other_node).
                          if import_matches_file imported_module other_file
                          then (other_file,
                                other_node\<lparr>imported_by := set_add (imported_by other_node) file_path\<rparr>)
                          else (other_file, other_node)) g2)
                 (node_imports node) g1)
          g g"

text \<open>
  \<^verbatim>\<open>get_affected_modules\<close>. The inner \<^verbatim>\<open>for dependent in ...imported_by\<close> is
  \<open>add_dependents\<close>; the \<^verbatim>\<open>while queue\<close> loop is \<open>affected_loop\<close>, where not returning
  is the value \<open>None\<close>.
\<close>

definition add_dependents ::
  "string list \<Rightarrow> string list \<times> string list \<Rightarrow> string list \<times> string list" where
  "add_dependents ds st =
     fold (\<lambda>dependent (affected, queue).
             if dependent \<notin> set affected
             then (set_add affected dependent, queue @ [dependent])
             else (affected, queue)) ds st"

partial_function (option) affected_loop ::
  "dependency_graph \<Rightarrow> string list \<Rightarrow> string list \<Rightarrow> string list \<Rightarrow> string list option" where
  "affected_loop g queue visited affected =
     (case queue of
        [] \<Rightarrow> Some affected
      | current # rest \<Rightarrow>
          if current \<in> set visited then affected_loop g rest visited affected
          else (case map_of g current of
                  None \<Rightarrow> affected_loop g rest (set_add visited current) affected
                | Some node \<Rightarrow>
                    affected_loop g
                      (snd (add_dependents (imported_by node) (affected, rest)))
                      (set_add visited current)
                      (fst (add_dependents (imported_by node) (affected, rest)))))"

declare affected_loop.simps [code]

definition direct_changes :: "dependency_graph \<Rightarrow> string list \<Rightarrow> string list" where
  "direct_changes g changed_files =
     fold (\<lambda>file affected. if map_of g file \<noteq> None then set_add affected file else affected)
          changed_files []"

definition get_affected_modules :: "dependency_graph \<Rightarrow> string list \<Rightarrow> string set option" where
  "get_affected_modules g changed_files =
     (let affected = direct_changes g changed_files
      in map_option set (affected_loop g affected [] affected))"

text \<open>The three-module import cycle: a imports b, b imports c, c imports a.\<close>

definition cycle_graph :: dependency_graph where
  "cycle_graph =
     build_reverse_dependencies
       [new_node ''a.py'' [''b''], new_node ''b.py'' [''c''], new_node ''c.py'' [''a'']]"

text \<open>Every path that occurs in some \<^verbatim>\<open>imported_by\<close> of the graph (used as a bound).\<close>

definition graph_names :: "dependency_graph \<Rightarrow> string set" where
  "graph_names g = (\<Union>(k, n) \<in> set g. set (imported_by n))"

section \<open>FilePatternMatcher (change\_detection.py)\<close>

text \<open>
  \<^verbatim>\<open>fnmatch.fnmatch(name, pattern)\<close> on a POSIX system (where \<^verbatim>\<open>os.path.normcase\<close> is the
  identity): the whole name has to match; \<^verbatim>\<open>*\<close> stands for any string, slashes
  included, \<^verbatim>\<open>?\<close> for any one character, every other character for itself. Bracket
  classes are not part of the model; no pattern of \<^verbatim>\<open>DEFAULT_PATTERNS\<close> has one.
\<close>

fun fnmatch :: "string \<Rightarrow> string \<Rightarrow> bool" where
  "fnmatch [] [] = True"
| "fnmatch (c # cs) [] = False"
| "fnmatch [] (p # ps) = (p = CHR ''*'' \<and> fnmatch [] ps)"
| "fnmatch (c # cs) (p # ps) =
     (if p = CHR ''*'' then fnmatch (c # cs) ps \<or> fnmatch cs (p # ps)
      else (p = CHR ''?'' \<or> p = c) \<and> fnmatch cs ps)"

definition matches_pattern :: "string \<Rightarrow> string \<Rightarrow> bool" where
  "matches_pattern file pattern =
     (if fnmatch file pattern then True
      else if fnmatch (''/'' @ file) (''/'' @ pattern) then True
      else if endswith pattern ''/**'' \<and> startswith file (take (length pattern - 3) pattern)
      then True
      else False)"

type_synonym patterns = "(string \<times> string list) list"

definition DEFAULT_PATTERNS :: patterns where
  "DEFAULT_PATTERNS =
     [(''docs'', [''docs/**'', ''*.md'', ''*.rst'', ''*.txt'', ''README*'', ''CHANGELOG*'',
                  ''LICENSE*'']),
      (''config'', [''*.yml'', ''*.yaml'', ''*.toml'', ''*.json'', ''.github/**'', ''*.cfg'',
                    ''*.ini'', ''.pre-commit-config.yaml'', ''tox.ini'', ''setup.cfg'']),
      (''tests'', [''tests/**'', ''**/test_*.py'', ''**/*_test.py'', ''**/*_tests.py'',
                   ''**/conftest.py'', ''test_*.py'', ''*_test.py'']),
      (''source'', [''src/**'', ''**/*.py'', ''**/*.js'', ''**/*.ts'', ''framework/**'',
                    ''lib/**'']),
      (''dependencies'', [''requirements*.txt'', ''pyproject.toml'', ''package.json'',
                          ''Pipfile*'', ''poetry.lock'', ''package-lock.json'', ''yarn.lock'',
                          ''Cargo.toml'']),
      (''ci'', [''.github/workflows/**'', ''.github/actions/**'', ''*.yml'', ''*.yaml'',
                ''.gitlab-ci.yml'']),
      (''build'', [''Dockerfile*'', ''docker-compose*.yml'', ''Makefile'', ''setup.py'',
                   ''setup.cfg'', ''CMakeLists.txt'', ''build.gradle'', ''pom.xml''])]"

text \<open>\<^verbatim>\<open>dict.update\<close> entry by entry: an existing key keeps its place, a new key goes last.\<close>

fun dict_set :: "('k \<times> 'v) list \<Rightarrow> 'k \<Rightarrow> 'v \<Rightarrow> ('k \<times> 'v) list" where
  "dict_set [] k v = [(k, v)]"
| "dict_set ((k', v') # d) k v = (if k' = k then (k, v) # d else (k', v') # dict_set d k v)"

definition dict_update :: "('k \<times> 'v) list \<Rightarrow> ('k \<times> 'v) list \<Rightarrow> ('k \<times> 'v) list" where
  "dict_update d other = fold (\<lambda>(k, v) acc. dict_set acc k v) other d"

definition init_patterns :: "patterns option \<Rightarrow> patterns" where
  "init_patterns custom_patterns =
     (case custom_patterns of
        None \<Rightarrow> DEFAULT_PATTERNS
      | Some custom \<Rightarrow> if custom = [] then DEFAULT_PATTERNS else dict_update DEFAULT_PATTERNS custom)"

definition extension_map :: "(string \<times> string) list" where
  "extension_map =
     [(''.py'', ''source''), (''.js'', ''source''), (''.ts'', ''source''), (''.jsx'', ''source''),
      (''.tsx'', ''source''), (''.go'', ''source''), (''.rs'', ''source''), (''.java'', ''source''),
      (''.cpp'', ''source''), (''.c'', ''source''), (''.h'', ''source''), (''.md'', ''docs''),
      (''.rst'', ''docs''), (''.txt'', ''docs''), (''.yml'', ''config''), (''.yaml'', ''config''),
      (''.toml'', ''config''), (''.json'', ''config''), (''.ini'', ''config''),
      (''.cfg'', ''config'')]"

text \<open>
  \<^verbatim>\<open>_infer_from_extension\<close> looks up \<^verbatim>\<open>Path(file).suffix.lower()\<close>; the library function
  that yields this lower-cased suffix is the parameter \<open>suffix_lower\<close>.
\<close>

definition infer_from_extension :: "(string \<Rightarrow> string) \<Rightarrow> string \<Rightarrow> string option" where
  "infer_from_extension suffix_lower file = (let ext = suffix_lower file in map_of extension_map ext)"

text \<open>
  \<^verbatim>\<open>classify_files\<close>: the two inner loops with their \<^verbatim>\<open>break\<close>s find the first category, in
  dictionary order, one of whose patterns matches; without one the extension decides,
  and a file with neither stays unclassified. All categories start with an empty list.
\<close>

fun any_match :: "string \<Rightarrow> string list \<Rightarrow> bool" where
  "any_match file [] = False"
| "any_match file (pattern # rest) = (if matches_pattern file pattern then True else any_match file rest)"

fun first_category :: "patterns \<Rightarrow> string \<Rightarrow> string option" where
  "first_category [] file = None"
| "first_category ((category, pats) # rest) file =
     (if any_match file pats then Some category else first_category rest file)"

definition append_file :: "classifications \<Rightarrow> string \<Rightarrow> string \<Rightarrow> classifications" where
  "append_file cls category file =
     map (\<lambda>(c, files). if c = category then (c, files @ [file]) else (c, files)) cls"

definition classify_file ::
  "patterns \<Rightarrow> (string \<Rightarrow> string) \<Rightarrow> string \<Rightarrow> classifications \<Rightarrow> classifications" where
  "classify_file pats suffix_lower file cls =
     (case first_category pats file of
        Some category \<Rightarrow> append_file cls category file
      | None \<Rightarrow>
          (case infer_from_extension suffix_lower file of
             Some ext_category \<Rightarrow> append_file cls ext_category file
           | None \<Rightarrow> cls))"

definition classify_files ::
  "patterns option \<Rightarrow> (string \<Rightarrow> string) \<Rightarrow> string list \<Rightarrow> classifications" where
  "classify_files custom_patterns suffix_lower files =
     (let pats = init_patterns custom_patterns
      in fold (classify_file pats suffix_lower) files (map (\<lambda>(category, ps). (category, [])) pats))"

definition get_patterns :: "patterns \<Rightarrow> string \<Rightarrow> string list" where
  "get_patterns pats category = (case map_of pats category of None \<Rightarrow> [] | Some ps \<Rightarrow> ps)"

text \<open>\<^verbatim>\<open>OptimizationEngine()\<close> with its default arguments.\<close>

definition default_engine :: optimization_engine where
  "default_engine = \<lparr>enable_test_optimization = True, enable_job_skipping = True\<rparr>"

text \<open>The category a file ends up in: the first matching one, else the extension's.\<close>

definition category_of :: "patterns \<Rightarrow> (string \<Rightarrow> string) \<Rightarrow> string \<Rightarrow> string option" where
  "category_of pats sl f =
     (case first_category pats f of Some c \<Rightarrow> Some c | None \<Rightarrow> infer_from_extension sl f)"

section \<open>QualityGatesAction (quality\_gates.py)\<close>

text \<open>
  \<^verbatim>\<open>str.split()\<close> cuts at runs of whitespace and drops empty words; \<^verbatim>\<open>sep.join\<close>;
  \<^verbatim>\<open>str(n)\<close> for an integer, as used by the f-strings. The whitespace characters are
  those of ASCII: the space, tab to carriage return, and the four separators
  \<open>0x1C\<close> to \<open>0x1F\<close>; whitespace beyond ASCII is not modelled.
\<close>

definition is_space :: "char \<Rightarrow> bool" where
  "is_space c = (c \<in> {CHR '' '', CHR 0x09, CHR 0x0A, CHR 0x0B, CHR 0x0C, CHR 0x0D,
                       CHR 0x1C, CHR 0x1D, CHR 0x1E, CHR 0x1F})"

fun split_words :: "string \<Rightarrow> string \<Rightarrow> string list" where
  "split_words w [] = (if w = [] then [] else [w])"
| "split_words w (c # cs) =
     (if is_space c then (if w = [] then split_words [] cs else w # split_words [] cs)
      else split_words (w @ [c]) cs)"

definition py_split :: "string \<Rightarrow> string list" where
  "py_split s = split_words [] s"

fun py_join :: "string \<Rightarrow> string list \<Rightarrow> string" where
  "py_join sep [] = []"
| "py_join sep [x] = x"
| "py_join sep (x # y # ys) = x @ sep @ py_join sep (y # ys)"

fun str_nat :: "nat \<Rightarrow> string" where
  "str_nat n = (if n < 10 then [''0123456789'' ! n]
                else str_nat (n div 10) @ [''0123456789'' ! (n mod 10)])"

declare str_nat.simps [simp del]

definition str_int :: "int \<Rightarrow> string" where
  "str_int i = (if i < 0 then ''-'' @ str_nat (nat (- i)) else str_nat (nat i))"

text \<open>
  The dataclass \<^verbatim>\<open>QualityResult\<close> with the fields that \<^verbatim>\<open>execute_tier\<close> decides; the
  fields \<^verbatim>\<open>dependencies\<close>, \<^verbatim>\<open>detected_patterns\<close>, \<^verbatim>\<open>config\<close> and \<^verbatim>\<open>execution_time\<close> carry
  project metadata and wall-clock time and are left out.
\<close>

record QualityResult =
  success :: bool
  tier :: string
  executed_checks :: "string list"
  failed_checks :: "string list"
  successful_checks :: "string list"
  failure_reason :: "string option"
  error_details :: "string option"
  failed_fast :: bool
  timeout_seconds :: "int option"
  partial_success :: bool
  environment :: "string option"
  compatibility_check :: bool

record PackageManager =
  name :: string
  quality_command :: string
  test_command :: string
  environment_support :: bool
  detected_files :: "string list"

text \<open>
  \<^verbatim>\<open>detect_package_manager\<close> reads \<^verbatim>\<open>pyproject.toml\<close>; its argument is the content of that
  file, \<open>None\<close> when the file is missing or cannot be read.
\<close>

definition detect_package_manager :: "string option \<Rightarrow> PackageManager" where
  "detect_package_manager pyproject =
     (let pip = \<lparr>name = ''pip'', quality_command = ''python -m pytest && python -m ruff check'',
                 test_command = ''python -m pytest'', environment_support = False,
                 detected_files = []\<rparr>
      in case pyproject of
           None \<Rightarrow> pip
         | Some content \<Rightarrow>
             if str_in ''[tool.pixi'' content
             then \<lparr>name = ''pixi'', quality_command = ''pixi run -e quality'',
                    test_command = ''pixi run test'', environment_support = True,
                    detected_files = [''pyproject.toml'']\<rparr>
             else if str_in ''[tool.poetry]'' content
             then \<lparr>name = ''poetry'',
                    quality_command = ''poetry run pytest && poetry run ruff check'',
                    test_command = ''poetry run pytest'', environment_support = True,
                    detected_files = [''pyproject.toml'', ''poetry.lock'']\<rparr>
             else if str_in ''[tool.hatch'' content
             then \<lparr>name = ''hatch'', quality_command = ''hatch run quality:test'',
                    test_command = ''hatch run test'', environment_support = True,
                    detected_files = [''pyproject.toml'']\<rparr>
             else pip)"

definition base_commands :: "(string \<times> string list) list" where
  "base_commands =
     [(''essential'', [''test'', ''lint'', ''typecheck'']),
      (''extended'', [''test'', ''lint'', ''typecheck'', ''security-scan'']),
      (''full'', [''test'', ''lint'', ''typecheck'', ''security-scan'', ''check-all''])]"

definition get_tier_commands :: "string \<Rightarrow> PackageManager \<Rightarrow> string list" where
  "get_tier_commands tier_name manager =
     (let commands = (case map_of base_commands tier_name of
                        None \<Rightarrow> [''test'', ''lint'', ''typecheck'']
                      | Some cs \<Rightarrow> cs)
      in if name manager = ''pixi'' then map (\<lambda>cmd. ''pixi run '' @ cmd) commands
         else if name manager = ''poetry'' then map (\<lambda>cmd. ''poetry run '' @ cmd) commands
         else if name manager = ''hatch'' then map (\<lambda>cmd. ''hatch run '' @ cmd) commands
         else map (\<lambda>cmd. ''python -m '' @ cmd) commands)"

text \<open>
  \<^verbatim>\<open>_execute_command\<close> spawns the command as a process group and waits for it under the
  timeout. What the process does is given by the environment: it exits with a return
  code and its two outputs, it runs into the timeout, or spawning it raises. The
  dictionary that \<^verbatim>\<open>_execute_command\<close> returns is the record \<open>command_result\<close>;
  \<open>r_timeout\<close> is \<^verbatim>\<open>result.get("timeout")\<close>. The branch for a patched
  \<^verbatim>\<open>subprocess.run\<close> builds the same dictionaries and is not modelled apart.
\<close>

datatype process_outcome = Exited int string string | TimedOut | SpawnFailed string

record command_result =
  r_success :: bool
  r_stdout :: string
  r_stderr :: string
  r_returncode :: int
  r_timeout :: bool
  r_error :: "string option"

definition execute_command :: "(string \<Rightarrow> process_outcome) \<Rightarrow> string \<Rightarrow> int \<Rightarrow> command_result" where
  "execute_command run cmd timeout =
     (case run cmd of
        Exited returncode out err \<Rightarrow>
          \<lparr>r_success = (returncode = 0), r_stdout = out, r_stderr = err,
           r_returncode = returncode, r_timeout = False, r_error = None\<rparr>
      | TimedOut \<Rightarrow>
          \<lparr>r_success = False, r_stdout = [],
           r_stderr = ''Command timed out after '' @ str_int timeout @ '' seconds'',
           r_returncode = - 1, r_timeout = True, r_error = None\<rparr>
      | SpawnFailed e \<Rightarrow>
          \<lparr>r_success = False, r_stdout = [], r_stderr = e, r_returncode = - 1,
           r_timeout = False, r_error = Some e\<rparr>)"

text \<open>\<^verbatim>\<open>cmd.split()[-1] if " " in cmd else cmd\<close>\<close>

definition command_name :: "string \<Rightarrow> string" where
  "command_name cmd = (if CHR '' '' \<in> set cmd then last (py_split cmd) else cmd)"

text \<open>The zero-tolerance test that both loops apply to a failed result.\<close>

definition has_critical_signature :: "command_result \<Rightarrow> bool" where
  "has_critical_signature result =
     (str_in ''F821'' (r_stderr result) \<or> str_in ''E9'' (r_stderr result))"

text \<open>
  The executors return the dictionary from command name to result, in insertion order.
  With it the model returns the commands that were handed to \<^verbatim>\<open>_execute_command\<close>.
  In parallel mode every command is submitted, and the results arrive in the order
  in which \<^verbatim>\<open>as_completed\<close> yields the futures: \<open>completion\<close> maps the submitted
  commands to that order.
\<close>

type_synonym command_results = "(string \<times> command_result) list"

definition execute_commands_parallel ::
  "(string \<Rightarrow> process_outcome) \<Rightarrow> (string list \<Rightarrow> string list) \<Rightarrow> string list \<Rightarrow> int
     \<Rightarrow> command_results \<times> string list" where
  "execute_commands_parallel run completion commands timeout =
     (fold (\<lambda>cmd results. dict_set results (command_name cmd) (execute_command run cmd timeout))
           (completion commands) [],
      commands)"

fun execute_commands_sequential ::
  "(string \<Rightarrow> process_outcome) \<Rightarrow> string list \<Rightarrow> int \<Rightarrow> bool
     \<Rightarrow> command_results \<times> string list \<Rightarrow> command_results \<times> string list" where
  "execute_commands_sequential run [] timeout fail_fast (results, spawned) = (results, spawned)"
| "execute_commands_sequential run (cmd # rest) timeout fail_fast (results, spawned) =
     (let cmd_name = command_name cmd;
          result = execute_command run cmd timeout;
          results = dict_set results cmd_name result;
          spawned = spawned @ [cmd]
      in if \<not> r_success result \<and> fail_fast \<and> has_critical_signature result
         then (results, spawned)
         else execute_commands_sequential run rest timeout fail_fast (results, spawned))"

text \<open>
  The environment of one \<^verbatim>\<open>execute_tier\<close> call: the content of \<^verbatim>\<open>pyproject.toml\<close>,
  \<^verbatim>\<open>self.config.timeouts\<close> after the overrides were applied, the behaviour of every
  command, the completion order of the worker pool, and the exception that writing the
  report files raises, if it does.
\<close>

datatype py_exception = TimeoutExpired | OtherException string

record world =
  w_pyproject :: "string option"
  w_timeouts :: "(string \<times> int) list"
  w_run :: "string \<Rightarrow> process_outcome"
  w_completion :: "string list \<Rightarrow> string list"
  w_report_error :: "py_exception option"

text \<open>
  The loop over \<^verbatim>\<open>command_results.items()\<close> with its local lists and the result object
  it updates; both \<^verbatim>\<open>break\<close>s end the recursion.
\<close>

record analysis =
  a_failed :: "string list"
  a_successful :: "string list"
  a_details :: "string list"
  a_result :: QualityResult

fun analyze_results :: "command_results \<Rightarrow> analysis \<Rightarrow> analysis" where
  "analyze_results [] st = st"
| "analyze_results ((cmd_name, cmd_result) # rest) st =
     (if r_success cmd_result
      then analyze_results rest (st\<lparr>a_successful := a_successful st @ [cmd_name]\<rparr>)
      else
        let st = st\<lparr>a_failed := a_failed st @ [cmd_name],
                    a_details := a_details st @ [cmd_name @ '': '' @ r_stderr cmd_result]\<rparr>
        in if has_critical_signature cmd_result
           then st\<lparr>a_result := (a_result st)\<lparr>failure_reason := Some ''critical_lint_violations'',
                                            error_details := Some (r_stderr cmd_result),
                                            failed_fast := True\<rparr>\<rparr>
           else if r_timeout cmd_result
           then st\<lparr>a_result := (a_result st)\<lparr>failure_reason := Some ''timeout'',
                     error_details := Some (''Command '' @ cmd_name @ '' timed out'')\<rparr>\<rparr>
           else analyze_results rest st)"

text \<open>
  The body of \<^verbatim>\<open>execute_tier\<close>, in the order of the source. \<open>run_commands\<close> is the
  \<^verbatim>\<open>if parallel\<close> choice of executor; \<open>aggregate\<close> is the block from
  \<^verbatim>\<open># Analyze results\<close> to the assignment of \<^verbatim>\<open>partial_success\<close>. \<^verbatim>\<open>not result.error_details\<close>
  holds for \<^verbatim>\<open>None\<close> and for the empty string.
\<close>

definition run_commands ::
  "world \<Rightarrow> bool \<Rightarrow> string list \<Rightarrow> int \<Rightarrow> command_results \<times> string list" where
  "run_commands w parallel commands timeout =
     (if parallel then execute_commands_parallel (w_run w) (w_completion w) commands timeout
      else execute_commands_sequential (w_run w) commands timeout True ([], []))"

definition aggregate :: "command_results \<Rightarrow> QualityResult \<Rightarrow> QualityResult" where
  "aggregate command_results result =
     (let st = analyze_results command_results
                 \<lparr>a_failed = [], a_successful = [], a_details = [], a_result = result\<rparr>;
          result = a_result st;
          result = (if a_failed st \<noteq> [] \<and>
                       (error_details result = None \<or> error_details result = Some [])
                    then result\<lparr>error_details := Some (py_join ''; '' (a_details st))\<rparr>
                    else result)
      in result\<lparr>failed_checks := a_failed st,
                 successful_checks := a_successful st,
                 success := (length (a_failed st) = 0),
                 partial_success := (length (a_successful st) > 0 \<and> length (a_failed st) > 0)\<rparr>)"

text \<open>
  The \<^verbatim>\<open>try\<close> block: it yields the result as far as it was built and the exception that
  left the block, if any. The commands themselves never raise into it
  (\<^verbatim>\<open>_execute_command\<close> turns every exception into a failed result); writing the reports of
  the full tier can.
\<close>

definition try_body ::
  "world \<Rightarrow> string \<Rightarrow> bool \<Rightarrow> string list \<Rightarrow> int \<Rightarrow> QualityResult
     \<Rightarrow> (QualityResult \<times> py_exception option) \<times> string list" where
  "try_body w tier_name parallel commands timeout result =
     (let (command_results, spawned) = run_commands w parallel commands timeout;
          result = aggregate command_results result
      in if tier_name = ''full'' \<and> success result
         then ((result, w_report_error w), spawned)
         else ((result, None), spawned))"

definition resolve_timeout :: "world \<Rightarrow> int option \<Rightarrow> int" where
  "resolve_timeout w timeout =
     (case timeout of
        None \<Rightarrow> (case map_of (w_timeouts w) ''test'' of None \<Rightarrow> 120 | Some t \<Rightarrow> t)
      | Some t \<Rightarrow> t)"

definition initial_result :: "world \<Rightarrow> string \<Rightarrow> QualityResult" where
  "initial_result w tier_name =
     (let result = \<lparr>success = False, tier = tier_name, executed_checks = [], failed_checks = [],
                    successful_checks = [], failure_reason = None, error_details = None,
                    failed_fast = False, timeout_seconds = None, partial_success = False,
                    environment = None, compatibility_check = False\<rparr>;
          manager = detect_package_manager (w_pyproject w);
          result = result\<lparr>environment := Some (name manager @ ''-'' @ tier_name)\<rparr>
      in result\<lparr>compatibility_check := True\<rparr>)"

text \<open>
  \<^verbatim>\<open>execute_tier\<close> returns the \<^verbatim>\<open>QualityResult\<close>; the second component is the list of the
  commands that were handed to a process, in the order of the tier's list.
\<close>

definition execute_tier ::
  "world \<Rightarrow> string \<Rightarrow> int option \<Rightarrow> bool \<Rightarrow> bool \<Rightarrow> QualityResult \<times> string list" where
  "execute_tier w tier_name timeout parallel dry_run =
     (let result = initial_result w tier_name;
          manager = detect_package_manager (w_pyproject w)
      in if dry_run then (result\<lparr>success := True\<rparr>, [])
         else
           let commands = get_tier_commands tier_name manager;
               result = result\<lparr>executed_checks := map (\<lambda>cmd. last (py_split cmd)) commands\<rparr>;
               timeout = resolve_timeout w timeout;
               result = result\<lparr>timeout_seconds := Some timeout\<rparr>;
               ((result, raised), spawned) = try_body w tier_name parallel commands timeout result
           in case raised of
                None \<Rightarrow> (result, spawned)
              | Some TimeoutExpired \<Rightarrow>
                  (result\<lparr>success := False, failure_reason := Some ''timeout'',
                          error_details := Some (''Overall execution timed out after ''
                                                 @ str_int timeout @ '' seconds'')\<rparr>, spawned)
              | Some (OtherException e) \<Rightarrow>
                  (result\<lparr>success := False, failure_reason := Some ''execution_error'',
                          error_details := Some e\<rparr>, spawned))"

text \<open>
  Concrete environments: the defaults of \<^verbatim>\<open>QualityConfig\<close>, no \<^verbatim>\<open>pyproject.toml\<close> (so
  the commands are \<^verbatim>\<open>python -m ...\<close>), and a lint command that reports an undefined
  name, a test command that hangs, both, or a reports directory that cannot be written.
\<close>

definition default_timeouts :: "(string \<times> int) list" where
  "default_timeouts = [(''test'', 120), (''lint'', 60), (''typecheck'', 90), (''security'', 180)]"

definition lint_f821 :: world where
  "lint_f821 = \<lparr>w_pyproject = None, w_timeouts = default_timeouts,
     w_run = (\<lambda>cmd. if cmd = ''python -m lint'' then Exited 1 [] ''F821 undefined name'' else Exited 0 [] []),
     w_completion = (\<lambda>cmds. cmds), w_report_error = None\<rparr>"

definition test_timeout :: world where
  "test_timeout = \<lparr>w_pyproject = None, w_timeouts = default_timeouts,
     w_run = (\<lambda>cmd. if cmd = ''python -m test'' then TimedOut else Exited 0 [] []),
     w_completion = (\<lambda>cmds. cmds), w_report_error = None\<rparr>"

definition reports_unwritable :: world where
  "reports_unwritable = \<lparr>w_pyproject = None, w_timeouts = default_timeouts,
     w_run = (\<lambda>cmd. Exited 0 [] []),
     w_completion = (\<lambda>cmds. cmds),
     w_report_error = Some (OtherException ''[Errno 13] Permission denied: reports'')\<rparr>"

definition timeout_then_f821 :: world where
  "timeout_then_f821 = \<lparr>w_pyproject = None, w_timeouts = default_timeouts,
     w_run = (\<lambda>cmd. if cmd = ''python -m test'' then TimedOut
                     else if cmd = ''python -m lint'' then Exited 1 [] ''F821 undefined name''
                     else Exited 0 [] []),
     w_completion = (\<lambda>cmds. cmds), w_report_error = None\<rparr>"

definition lint_timeout :: world where
  "lint_timeout = \<lparr>w_pyproject = None, w_timeouts = default_timeouts,
     w_run = (\<lambda>cmd. if cmd = ''python -m lint'' then TimedOut else Exited 0 [] []),
     w_completion = (\<lambda>cmds. cmds), w_report_error = None\<rparr>"

text \<open>
  Notions used to state the properties: the commands a sequential run gets to (up to and
  including the first failure with a zero-tolerance signature), a result that ends the
  aggregation loop, the result object as it enters the \<^verbatim>\<open>try\<close> block, and as it leaves
  the aggregation.
\<close>

fun run_prefix :: "(string \<Rightarrow> process_outcome) \<Rightarrow> int \<Rightarrow> string list \<Rightarrow> string list" where
  "run_prefix run timeout [] = []"
| "run_prefix run timeout (cmd # rest) =
     (if \<not> r_success (execute_command run cmd timeout)
         \<and> has_critical_signature (execute_command run cmd timeout)
      then [cmd] else cmd # run_prefix run timeout rest)"

definition decisive :: "command_result \<Rightarrow> bool" where
  "decisive r = (\<not> r_success r \<and> (has_critical_signature r \<or> r_timeout r))"

definition prepared_result :: "world \<Rightarrow> string \<Rightarrow> int option \<Rightarrow> QualityResult" where
  "prepared_result w tn timeout =
     (initial_result w tn)
       \<lparr>executed_checks := map (\<lambda>cmd. last (py_split cmd))
                               (get_tier_commands tn (detect_package_manager (w_pyproject w))),
        timeout_seconds := Some (resolve_timeout w timeout)\<rparr>"

definition aggregated_result :: "world \<Rightarrow> string \<Rightarrow> int option \<Rightarrow> bool \<Rightarrow> QualityResult" where
  "aggregated_result w tn timeout parallel =
     aggregate (fst (run_commands w parallel
                  (get_tier_commands tn (detect_package_manager (w_pyproject w)))
                  (resolve_timeout w timeout)))
               (prepared_result w tn timeout)"

section \<open>Properties of the optimization engine\<close>

lemma job_time_values:
  "job_time ''tests'' = 120" "job_time ''security'' = 180"
  "job_time ''docs'' = 60" "job_time ''lint'' = 30"
  by (simp_all add: job_time_def job_time_estimates_def)

lemma score_of_flags:
  "calculate_optimization_score sr =
     25 * (of_bool (sr_tests sr) + of_bool (sr_security sr) + of_bool (sr_docs sr)
           + of_bool (sr_lint sr))"
  by (cases "sr_tests sr"; cases "sr_security sr"; cases "sr_docs sr"; cases "sr_lint sr")
     (simp_all add: calculate_optimization_score_def skipped_jobs_def py_int_def)

lemma savings_of_flags:
  "calculate_time_savings sr =
     of_bool (sr_tests sr) * 120 + of_bool (sr_security sr) * 180
     + of_bool (sr_docs sr) * 60 + of_bool (sr_lint sr) * 30"
  by (simp add: calculate_time_savings_def job_time_values)

text \<open>
  Claim C7. For every non-empty classification, the optimization score is 25 times the
  number of true skip flags among skip\_tests, skip\_security, skip\_docs and skip\_lint,
  hence lies between 0 and 100, and the time savings are the sum over the true flags of
  the estimates tests=120, security=180, docs=60, lint=30.
\<close>

theorem optimization_score_and_savings:
  assumes "total_files cls \<noteq> 0"
  shows "optimization_score (calculate_optimization eng cls ts) =
           25 * (of_bool (skip_tests (calculate_optimization eng cls ts))
               + of_bool (skip_security (calculate_optimization eng cls ts))
               + of_bool (skip_docs (calculate_optimization eng cls ts))
               + of_bool (skip_lint (calculate_optimization eng cls ts)))
       \<and> 0 \<le> optimization_score (calculate_optimization eng cls ts)
       \<and> optimization_score (calculate_optimization eng cls ts) \<le> 100
       \<and> time_savings (calculate_optimization eng cls ts) =
           of_bool (skip_tests (calculate_optimization eng cls ts)) * 120
         + of_bool (skip_security (calculate_optimization eng cls ts)) * 180
         + of_bool (skip_docs (calculate_optimization eng cls ts)) * 60
         + of_bool (skip_lint (calculate_optimization eng cls ts)) * 30"
  using assms
  by (simp add: calculate_optimization_def Let_def score_of_flags savings_of_flags)

theorem optimization_score_and_savings_witness:
  "total_files [(''docs'', [''README.md'']), (''source'', [])] \<noteq> 0
   \<and> optimization_score (calculate_optimization
        \<lparr>enable_test_optimization = True, enable_job_skipping = True\<rparr>
        [(''docs'', [''README.md'']), (''source'', [])] []) = 75
   \<and> time_savings (calculate_optimization
        \<lparr>enable_test_optimization = True, enable_job_skipping = True\<rparr>
        [(''docs'', [''README.md'']), (''source'', [])] []) = 330"
proof -
  have h: "total_files [(''docs'', [''README.md'']), (''source'', [])] \<noteq> 0"
    by (simp add: total_files_def)
  have f: "skip_tests (calculate_optimization
        \<lparr>enable_test_optimization = True, enable_job_skipping = True\<rparr>
        [(''docs'', [''README.md'']), (''source'', [])] [])
      \<and> skip_security (calculate_optimization
        \<lparr>enable_test_optimization = True, enable_job_skipping = True\<rparr>
        [(''docs'', [''README.md'']), (''source'', [])] [])
      \<and> \<not> skip_docs (calculate_optimization
        \<lparr>enable_test_optimization = True, enable_job_skipping = True\<rparr>
        [(''docs'', [''README.md'']), (''source'', [])] [])
      \<and> skip_lint (calculate_optimization
        \<lparr>enable_test_optimization = True, enable_job_skipping = True\<rparr>
        [(''docs'', [''README.md'']), (''source'', [])] [])"
    by (simp add: calculate_optimization_def total_files_def Let_def
        analyze_change_patterns_def calculate_skip_recommendations_def get_files_def
        py_any_def)
  show ?thesis
    using h f optimization_score_and_savings [OF h,
        of "\<lparr>enable_test_optimization = True, enable_job_skipping = True\<rparr>" "[]"]
    by simp
qed

section \<open>Properties of the dependency analyzer\<close>

lemma set_set_add: "set (set_add s x) = insert x (set s)"
  by (auto simp: set_add_def)

lemma add_dependents_Nil: "add_dependents [] st = st"
  by (simp add: add_dependents_def)

lemma add_dependents_Cons:
  "add_dependents (d # ds) (a, q) =
     (if d \<notin> set a then add_dependents ds (set_add a d, q @ [d]) else add_dependents ds (a, q))"
  by (simp add: add_dependents_def)

lemma set_fst_add_dependents: "set (fst (add_dependents ds (a, q))) = set a \<union> set ds"
  by (induction ds arbitrary: a q) (auto simp: add_dependents_Nil add_dependents_Cons set_set_add)

lemma set_snd_add_dependents: "set (snd (add_dependents ds (a, q))) = set q \<union> (set ds - set a)"
  by (induction ds arbitrary: a q) (auto simp: add_dependents_Nil add_dependents_Cons set_set_add)

lemma add_dependents_known: "set ds \<subseteq> set a \<Longrightarrow> add_dependents ds (a, q) = (a, q)"
  by (induction ds) (auto simp: add_dependents_Nil add_dependents_Cons)

lemma imported_by_names: "map_of g m = Some n \<Longrightarrow> set (imported_by n) \<subseteq> graph_names g"
  by (auto simp: graph_names_def dest!: map_of_SomeD)

lemma finite_graph_names: "finite (graph_names g)"
  by (auto simp: graph_names_def)

lemma affected_loop_Nil: "affected_loop g [] visited affected = Some affected"
  by (simp add: affected_loop.simps)

lemma affected_loop_Cons:
  "affected_loop g (current # rest) visited affected =
     (if current \<in> set visited then affected_loop g rest visited affected
      else (case map_of g current of
              None \<Rightarrow> affected_loop g rest (set_add visited current) affected
            | Some node \<Rightarrow>
                affected_loop g
                  (snd (add_dependents (imported_by node) (affected, rest)))
                  (set_add visited current)
                  (fst (add_dependents (imported_by node) (affected, rest)))))"
  by (subst affected_loop.simps) simp

lemma affected_loop_returns_closed:
  assumes "set affected \<subseteq> set queue \<union> set visited"
    and "\<forall>m \<in> set visited. \<forall>n. map_of g m = Some n \<longrightarrow> set (imported_by n) \<subseteq> set affected"
  shows "\<exists>r. affected_loop g queue visited affected = Some r \<and> set affected \<subseteq> set r
           \<and> (\<forall>m \<in> set r. \<forall>n. map_of g m = Some n \<longrightarrow> set (imported_by n) \<subseteq> set r)"
  using assms
proof (induction "card (graph_names g - set affected)" arbitrary: affected queue visited
    rule: less_induct)
  case less
  show ?case using less.prems
  proof (induction queue arbitrary: visited)
    case Nil
    then show ?case by (auto simp: affected_loop_Nil)
  next
    case (Cons current rest)
    show ?case
    proof (cases "current \<in> set visited")
      case True
      have "set affected \<subseteq> set rest \<union> set visited" using Cons.prems(1) True by auto
      from Cons.IH [OF this Cons.prems(2)] show ?thesis
        using True by (simp add: affected_loop_Cons)
    next
      case False
      show ?thesis
      proof (cases "map_of g current")
        case None
        have a: "set affected \<subseteq> set rest \<union> set (set_add visited current)"
          using Cons.prems(1) by (auto simp: set_set_add)
        have b: "\<forall>m \<in> set (set_add visited current). \<forall>n. map_of g m = Some n
                   \<longrightarrow> set (imported_by n) \<subseteq> set affected"
          using Cons.prems(2) None by (auto simp: set_set_add)
        from Cons.IH [OF a b] show ?thesis
          using False None by (simp add: affected_loop_Cons)
      next
        case (Some nd)
        let ?ds = "imported_by nd"
        let ?a = "fst (add_dependents ?ds (affected, rest))"
        let ?q = "snd (add_dependents ?ds (affected, rest))"
        let ?v = "set_add visited current"
        have step: "affected_loop g (current # rest) visited affected = affected_loop g ?q ?v ?a"
          using False Some by (simp add: affected_loop_Cons)
        have a: "set ?a \<subseteq> set ?q \<union> set ?v"
          using Cons.prems(1)
          by (auto simp: set_set_add set_fst_add_dependents set_snd_add_dependents)
        have b: "\<forall>m \<in> set ?v. \<forall>n. map_of g m = Some n \<longrightarrow> set (imported_by n) \<subseteq> set ?a"
          using Cons.prems(2) Some
          by (auto simp: set_set_add set_fst_add_dependents)
        show ?thesis
        proof (cases "set ?ds \<subseteq> set affected")
          case True
          then have same: "?a = affected" "?q = rest"
            by (simp_all add: add_dependents_known)
          from Cons.IH [of ?v] a b same show ?thesis
            using step by simp
        next
          case False
          then obtain x where x: "x \<in> set ?ds" "x \<notin> set affected" by auto
          have "x \<in> graph_names g" using imported_by_names [OF Some] x(1) by auto
          then have "graph_names g - set ?a \<subset> graph_names g - set affected"
            using x by (auto simp: set_fst_add_dependents)
          then have "card (graph_names g - set ?a) < card (graph_names g - set affected)"
            by (intro psubset_card_mono) (auto simp: finite_graph_names)
          from less.hyps [OF this a b] obtain r where
            r: "affected_loop g ?q ?v ?a = Some r" "set ?a \<subseteq> set r"
               "\<forall>m \<in> set r. \<forall>n. map_of g m = Some n \<longrightarrow> set (imported_by n) \<subseteq> set r"
            by blast
          have "set affected \<subseteq> set r" using r(2) by (auto simp: set_fst_add_dependents)
          then show ?thesis using r step by simp
        qed
      qed
    qed
  qed
qed

lemma set_direct_changes_aux:
  "set (fold (\<lambda>file affected. if map_of g file \<noteq> None then set_add affected file else affected)
          cs acc) = set acc \<union> {f \<in> set cs. map_of g f \<noteq> None}"
  by (induction cs arbitrary: acc) (auto simp: set_set_add)

lemma set_direct_changes:
  "set (direct_changes g cs) = {f \<in> set cs. map_of g f \<noteq> None}"
  using set_direct_changes_aux [of g cs "[]"] by (simp add: direct_changes_def)

text \<open>
  Claim C3. For every dependency graph and every list of changed files,
  get\_affected\_modules returns a set that contains every changed file that is a node of
  the graph, and that is closed under imported\_by: for every node in the result, all
  members of its imported\_by set are in the result.
\<close>

theorem affected_modules_superset_closed:
  "\<exists>S. get_affected_modules g changed = Some S
     \<and> set changed \<inter> fst ` set g \<subseteq> S
     \<and> (\<forall>m \<in> S. \<forall>n. map_of g m = Some n \<longrightarrow> set (imported_by n) \<subseteq> S)"
proof -
  let ?a = "direct_changes g changed"
  have "set ?a \<subseteq> set ?a \<union> set []" by simp
  moreover have "\<forall>m \<in> set []. \<forall>n. map_of g m = Some n \<longrightarrow> set (imported_by n) \<subseteq> set ?a"
    by simp
  ultimately obtain r where
    r: "affected_loop g ?a [] ?a = Some r" "set ?a \<subseteq> set r"
       "\<forall>m \<in> set r. \<forall>n. map_of g m = Some n \<longrightarrow> set (imported_by n) \<subseteq> set r"
    using affected_loop_returns_closed [of ?a ?a "[]" g] by blast
  have "set changed \<inter> fst ` set g \<subseteq> set ?a"
    by (auto simp: set_direct_changes map_of_eq_None_iff)
  then show ?thesis
    using r by (auto simp: get_affected_modules_def Let_def)
qed

lemma cycle_graph_a:
  "map_of cycle_graph ''a.py'' =
     Some \<lparr>module_path = ''a.py'', node_imports = [''b''], imported_by = [''c.py''],
           test_files = [], is_test = False\<rparr>"
  by code_simp

theorem affected_modules_superset_closed_witness:
  "\<exists>S. get_affected_modules cycle_graph [''a.py''] = Some S
     \<and> ''a.py'' \<in> S \<and> ''c.py'' \<in> S"
proof -
  obtain S where S: "get_affected_modules cycle_graph [''a.py''] = Some S"
      "set [''a.py''] \<inter> fst ` set cycle_graph \<subseteq> S"
      "\<forall>m \<in> S. \<forall>n. map_of cycle_graph m = Some n \<longrightarrow> set (imported_by n) \<subseteq> S"
    using affected_modules_superset_closed [of cycle_graph "[''a.py'']"] by blast
  have "''a.py'' \<in> fst ` set cycle_graph"
    using cycle_graph_a by (metis map_of_eq_None_iff option.distinct(1))
  then have a: "''a.py'' \<in> S" using S(2) by auto
  then have "''c.py'' \<in> S" using S(3) cycle_graph_a by fastforce
  then show ?thesis using S(1) a by blast
qed

text \<open>
  Claim C4. get\_affected\_modules returns on every graph, cyclic or not; on the
  three-module cycle (a imports b, b imports c, c imports a) a change of any single one
  of the three files yields exactly the three of them.
\<close>

theorem affected_modules_terminates:
  "(\<exists>S. get_affected_modules g changed = Some S)
   \<and> get_affected_modules cycle_graph [''a.py''] = Some {''a.py'', ''b.py'', ''c.py''}
   \<and> get_affected_modules cycle_graph [''b.py''] = Some {''a.py'', ''b.py'', ''c.py''}
   \<and> get_affected_modules cycle_graph [''c.py''] = Some {''a.py'', ''b.py'', ''c.py''}"
proof -
  have "\<exists>r. affected_loop g (direct_changes g changed) [] (direct_changes g changed) = Some r"
    using affected_loop_returns_closed
      [of "direct_changes g changed" "direct_changes g changed" "[]" g]
    by auto
  then have total: "\<exists>S. get_affected_modules g changed = Some S"
    by (auto simp: get_affected_modules_def Let_def)
  have a: "get_affected_modules cycle_graph [''a.py''] = Some {''a.py'', ''b.py'', ''c.py''}"
    by code_simp
  have b: "get_affected_modules cycle_graph [''b.py''] = Some {''a.py'', ''b.py'', ''c.py''}"
    by code_simp
  have c: "get_affected_modules cycle_graph [''c.py''] = Some {''a.py'', ''b.py'', ''c.py''}"
    by code_simp
  show ?thesis using total a b c by blast
qed

section \<open>Properties of the file classification\<close>

lemmas classify_eval = classify_files_def init_patterns_def DEFAULT_PATTERNS_def
  classify_file_def matches_pattern_def append_file_def endswith_def

lemmas optimization_eval = calculate_optimization_def total_files_def Let_def
  analyze_change_patterns_def calculate_skip_recommendations_def get_files_def py_any_def
  calculate_optimization_score_def skipped_jobs_def py_int_def default_engine_def

lemma classify_readme:
  "classify_files None sl [''README.md''] =
     [(''docs'', [''README.md'']), (''config'', []), (''tests'', []), (''source'', []),
      (''dependencies'', []), (''ci'', []), (''build'', [])]"
  by (simp add: classify_eval)

lemma classify_pyproject:
  "classify_files None sl [''pyproject.toml''] =
     [(''docs'', []), (''config'', [''pyproject.toml'']), (''tests'', []), (''source'', []),
      (''dependencies'', []), (''ci'', []), (''build'', [])]"
  by (simp add: classify_eval)

lemma classify_requirements:
  "classify_files None sl [''requirements.txt''] =
     [(''docs'', [''requirements.txt'']), (''config'', []), (''tests'', []), (''source'', []),
      (''dependencies'', []), (''ci'', []), (''build'', [])]"
  by (simp add: classify_eval)

text \<open>
  Claim C8. For the changed-file list ["README.md"], with the default patterns and both
  optimization toggles enabled, README.md is classified as docs and every other category
  is empty; docs\_only is true; skip\_tests, skip\_lint and skip\_security are true,
  skip\_docs is false, and the optimization score is 75.
\<close>

theorem readme_only_change:
  "classify_files None sl [''README.md''] =
     [(''docs'', [''README.md'']), (''config'', []), (''tests'', []), (''source'', []),
      (''dependencies'', []), (''ci'', []), (''build'', [])]
   \<and> docs_only (analyze_change_patterns (classify_files None sl [''README.md'']))
   \<and> skip_tests (calculate_optimization default_engine (classify_files None sl [''README.md'']) ts)
   \<and> skip_lint (calculate_optimization default_engine (classify_files None sl [''README.md'']) ts)
   \<and> skip_security (calculate_optimization default_engine (classify_files None sl [''README.md'']) ts)
   \<and> \<not> skip_docs (calculate_optimization default_engine (classify_files None sl [''README.md'']) ts)
   \<and> optimization_score (calculate_optimization default_engine (classify_files None sl [''README.md'']) ts) = 75"
  unfolding classify_readme by (simp add: optimization_eval)

lemma map_of_append_file:
  "map_of (append_file cls c f) k =
     (if k = c then map_option (\<lambda>fs. fs @ [f]) (map_of cls c) else map_of cls k)"
  unfolding append_file_def by (induction cls) auto

lemma get_files_append_file:
  "set (get_files (append_file cls c f) k) \<subseteq> set (get_files cls k) \<union> (if k = c then {f} else {})"
  by (cases "map_of cls c") (auto simp: get_files_def map_of_append_file)

lemma get_files_classify_file:
  "set (get_files (classify_file pats sl f cls) k)
     \<subseteq> set (get_files cls k) \<union> (if category_of pats sl f = Some k then {f} else {})"
proof (cases "category_of pats sl f")
  case None
  then have "classify_file pats sl f cls = cls"
    by (auto simp: classify_file_def category_of_def split: option.splits)
  then show ?thesis by simp
next
  case (Some c)
  then have "classify_file pats sl f cls = append_file cls c f"
    by (auto simp: classify_file_def category_of_def split: option.splits)
  then show ?thesis
    using get_files_append_file [of cls c f k] Some by (auto split: if_splits)
qed

lemma get_files_fold_classify:
  "set (get_files (fold (classify_file pats sl) files cls) k)
     \<subseteq> set (get_files cls k) \<union> {f \<in> set files. category_of pats sl f = Some k}"
proof (induction files arbitrary: cls)
  case Nil
  then show ?case by simp
next
  case (Cons f files)
  have "set (get_files (fold (classify_file pats sl) (f # files) cls) k)
      \<subseteq> set (get_files (classify_file pats sl f cls) k) \<union> {x \<in> set files. category_of pats sl x = Some k}"
    using Cons.IH [of "classify_file pats sl f cls"] by simp
  also have "\<dots> \<subseteq> set (get_files cls k) \<union> {x \<in> set (f # files). category_of pats sl x = Some k}"
    using get_files_classify_file [of pats sl f cls k] by (auto split: if_splits)
  finally show ?case .
qed

lemma any_matchI: "p \<in> set ps \<Longrightarrow> matches_pattern f p \<Longrightarrow> any_match f ps"
  by (induction ps) auto

lemma get_files_init: "get_files (map (\<lambda>(category, ps). (category, [])) pats) k = []"
  by (induction pats) (auto simp: get_files_def)

lemma earlier_category_wins:
  assumes "category \<in> {''docs'', ''config'', ''tests'', ''source''}"
    and "pattern \<in> set (get_patterns DEFAULT_PATTERNS category)"
    and "matches_pattern f pattern"
  shows "category_of DEFAULT_PATTERNS sl f \<noteq> Some ''dependencies''"
proof -
  obtain D C T S rest where dp:
    "DEFAULT_PATTERNS = (''docs'', D) # (''config'', C) # (''tests'', T) # (''source'', S) # rest"
    by (simp add: DEFAULT_PATTERNS_def)
  have "any_match f D \<or> any_match f C \<or> any_match f T \<or> any_match f S"
    using assms any_matchI [of pattern _ f] by (auto simp: dp get_patterns_def)
  then have "first_category DEFAULT_PATTERNS f \<in> {Some ''docs'', Some ''config'', Some ''tests'', Some ''source''}"
    by (auto simp: dp)
  then show ?thesis by (auto simp: category_of_def)
qed

text \<open>
  Claim C10. Classification is first-match-wins over the default category order docs,
  config, tests, source, dependencies, ci, build: a file that matches a pattern of one of
  the four categories before dependencies is never put into dependencies. In particular
  pyproject.toml goes to config and requirements.txt goes to docs, has\_dependencies is
  false for either change set, and skip\_tests is true for them.
\<close>

theorem earlier_category_shadows_dependencies:
  "(category \<in> {''docs'', ''config'', ''tests'', ''source''}
      \<and> pattern \<in> set (get_patterns DEFAULT_PATTERNS category) \<and> matches_pattern f pattern
     \<longrightarrow> f \<notin> set (get_files (classify_files None sl files) ''dependencies''))
   \<and> classify_files None sl [''pyproject.toml''] =
       [(''docs'', []), (''config'', [''pyproject.toml'']), (''tests'', []), (''source'', []),
        (''dependencies'', []), (''ci'', []), (''build'', [])]
   \<and> classify_files None sl [''requirements.txt''] =
       [(''docs'', [''requirements.txt'']), (''config'', []), (''tests'', []), (''source'', []),
        (''dependencies'', []), (''ci'', []), (''build'', [])]
   \<and> \<not> has_dependencies (analyze_change_patterns (classify_files None sl [''pyproject.toml'']))
   \<and> \<not> has_dependencies (analyze_change_patterns (classify_files None sl [''requirements.txt'']))
   \<and> skip_tests (calculate_optimization default_engine (classify_files None sl [''pyproject.toml'']) ts)
   \<and> skip_tests (calculate_optimization default_engine (classify_files None sl [''requirements.txt'']) ts)"
proof -
  have general: "f \<notin> set (get_files (classify_files None sl files) ''dependencies'')"
    if "category \<in> {''docs'', ''config'', ''tests'', ''source''}"
      "pattern \<in> set (get_patterns DEFAULT_PATTERNS category)" "matches_pattern f pattern"
  proof
    assume "f \<in> set (get_files (classify_files None sl files) ''dependencies'')"
    then have "f \<in> set (get_files (fold (classify_file DEFAULT_PATTERNS sl) files
                 (map (\<lambda>(category, ps). (category, [])) DEFAULT_PATTERNS)) ''dependencies'')"
      by (simp add: classify_files_def init_patterns_def)
    then have "category_of DEFAULT_PATTERNS sl f = Some ''dependencies''"
      using get_files_fold_classify [of DEFAULT_PATTERNS sl files
          "map (\<lambda>(category, ps). (category, [])) DEFAULT_PATTERNS" "''dependencies''"]
      unfolding get_files_init by auto
    then show False using earlier_category_wins [OF that] by simp
  qed
  have a: "\<not> has_dependencies (analyze_change_patterns (classify_files None sl [''pyproject.toml'']))"
    unfolding classify_pyproject by (simp add: optimization_eval)
  have b: "\<not> has_dependencies (analyze_change_patterns (classify_files None sl [''requirements.txt'']))"
    unfolding classify_requirements by (simp add: optimization_eval)
  have c: "skip_tests (calculate_optimization default_engine (classify_files None sl [''pyproject.toml'']) ts)"
    unfolding classify_pyproject by (simp add: optimization_eval)
  have d: "skip_tests (calculate_optimization default_engine (classify_files None sl [''requirements.txt'']) ts)"
    unfolding classify_requirements by (simp add: optimization_eval)
  show ?thesis
    using general a b c d classify_pyproject [of sl] classify_requirements [of sl] by blast
qed

theorem earlier_category_shadows_dependencies_witness:
  "''config'' \<in> {''docs'', ''config'', ''tests'', ''source''}
   \<and> ''*.toml'' \<in> set (get_patterns DEFAULT_PATTERNS ''config'')
   \<and> matches_pattern ''pyproject.toml'' ''*.toml''
   \<and> ''pyproject.toml'' \<in> set (get_patterns DEFAULT_PATTERNS ''dependencies'')
   \<and> matches_pattern ''pyproject.toml'' ''pyproject.toml''
   \<and> ''pyproject.toml'' \<notin> set (get_files
         (classify_files None (\<lambda>file. []) [''src/a.py'', ''pyproject.toml'']) ''dependencies'')"
proof -
  have h: "''config'' \<in> {''docs'', ''config'', ''tests'', ''source''}
      \<and> ''*.toml'' \<in> set (get_patterns DEFAULT_PATTERNS ''config'')
      \<and> matches_pattern ''pyproject.toml'' ''*.toml''"
    by (simp add: get_patterns_def DEFAULT_PATTERNS_def matches_pattern_def)
  have d: "''pyproject.toml'' \<in> set (get_patterns DEFAULT_PATTERNS ''dependencies'')
      \<and> matches_pattern ''pyproject.toml'' ''pyproject.toml''"
    by (simp add: get_patterns_def DEFAULT_PATTERNS_def matches_pattern_def)
  show ?thesis
    using h d earlier_category_shadows_dependencies
      [of "''config''" "''*.toml''" "''pyproject.toml''" "\<lambda>file. []"
          "[''src/a.py'', ''pyproject.toml'']"]
    by blast
qed

section \<open>Properties of the quality gates\<close>

lemma dict_set_fresh: "k \<notin> fst ` set d \<Longrightarrow> dict_set d k v = d @ [(k, v)]"
  by (induction d) auto

lemma set_run_prefix: "set (run_prefix run t cmds) \<subseteq> set cmds"
  by (induction cmds) auto

lemma sequential_eq:
  "distinct (map command_name cmds) \<Longrightarrow> command_name ` set cmds \<inter> fst ` set res = {} \<Longrightarrow>
   execute_commands_sequential run cmds t True (res, sp) =
     (res @ map (\<lambda>c. (command_name c, execute_command run c t)) (run_prefix run t cmds),
      sp @ run_prefix run t cmds)"
proof (induction cmds arbitrary: res sp)
  case Nil
  then show ?case by simp
next
  case (Cons c cs)
  have fresh: "command_name c \<notin> fst ` set res" using Cons.prems(2) by auto
  have d: "distinct (map command_name cs)" using Cons.prems(1) by simp
  have disj: "command_name ` set cs \<inter>
        fst ` set (res @ [(command_name c, execute_command run c t)]) = {}"
    using Cons.prems by auto
  show ?case
    using Cons.IH [OF d disj, of "sp @ [c]"]
    by (simp add: Let_def dict_set_fresh [OF fresh])
qed

lemma parallel_eq:
  "distinct (map command_name cmds) \<Longrightarrow> command_name ` set cmds \<inter> fst ` set res = {} \<Longrightarrow>
   fold (\<lambda>cmd results. dict_set results (command_name cmd) (execute_command run cmd t)) cmds res
     = res @ map (\<lambda>c. (command_name c, execute_command run c t)) cmds"
proof (induction cmds arbitrary: res)
  case Nil
  then show ?case by simp
next
  case (Cons c cs)
  have fresh: "command_name c \<notin> fst ` set res" using Cons.prems(2) by auto
  have d: "distinct (map command_name cs)" using Cons.prems(1) by simp
  have disj: "command_name ` set cs \<inter>
        fst ` set (res @ [(command_name c, execute_command run c t)]) = {}"
    using Cons.prems by auto
  show ?case
    using Cons.IH [OF d disj] by (simp add: dict_set_fresh [OF fresh])
qed

lemma tier_command_names:
  "map command_name (get_tier_commands tier_name manager) =
     (case map_of base_commands tier_name of None \<Rightarrow> [''test'', ''lint'', ''typecheck'']
      | Some cs \<Rightarrow> cs)"
  by (simp add: get_tier_commands_def base_commands_def command_name_def py_split_def
      is_space_def Let_def)

lemma tier_last_words:
  "map (\<lambda>cmd. last (py_split cmd)) (get_tier_commands tier_name manager) =
     map command_name (get_tier_commands tier_name manager)"
  by (simp add: get_tier_commands_def base_commands_def command_name_def py_split_def
      is_space_def Let_def)

lemma tier_names_distinct: "distinct (map command_name (get_tier_commands tier_name manager))"
  unfolding tier_command_names by (simp add: base_commands_def)

lemma analyze_invariant:
  "failure_reason (a_result st) \<noteq> None \<longrightarrow> a_failed st \<noteq> [] \<Longrightarrow>
   failure_reason (a_result (analyze_results rs st)) \<noteq> None
     \<longrightarrow> a_failed (analyze_results rs st) \<noteq> []"
  by (induction rs st rule: analyze_results.induct) (auto simp: Let_def)

lemma analyze_keys:
  "set (a_failed (analyze_results rs st)) \<union> set (a_successful (analyze_results rs st))
     \<subseteq> set (a_failed st) \<union> set (a_successful st) \<union> fst ` set rs"
  by (induction rs st rule: analyze_results.induct) (auto simp: Let_def)

lemma analyze_critical:
  assumes "\<forall>p \<in> set pre. \<not> decisive (snd p)"
    and "\<not> r_success r" "has_critical_signature r"
  shows "failed_fast (a_result (analyze_results (pre @ (n, r) # post) st))
       \<and> failure_reason (a_result (analyze_results (pre @ (n, r) # post) st))
           = Some ''critical_lint_violations''
       \<and> a_failed (analyze_results (pre @ (n, r) # post) st) \<noteq> []"
  using assms
proof (induction pre arbitrary: st)
  case Nil
  then show ?case by (simp add: Let_def)
next
  case (Cons p pre)
  obtain pn pr where p: "p = (pn, pr)" by (cases p)
  have nd: "\<not> decisive pr" using Cons.prems(1) p by simp
  have rest: "\<forall>q \<in> set pre. \<not> decisive (snd q)" using Cons.prems(1) by simp
  show ?case
  proof (cases "r_success pr")
    case True
    then show ?thesis
      using Cons.IH [OF rest Cons.prems(2,3)] p by simp
  next
    case False
    then have "\<not> has_critical_signature pr" "\<not> r_timeout pr"
      using nd by (auto simp: decisive_def)
    then show ?thesis
      using Cons.IH [OF rest Cons.prems(2,3)] p False by (simp add: Let_def)
  qed
qed

lemma timed_out_result:
  "r_timeout (execute_command run c t) = (run c = TimedOut)"
  by (simp add: execute_command_def split: process_outcome.splits)

lemma str_in_set: "str_in needle hay \<Longrightarrow> set needle \<subseteq> set hay"
proof (induction hay)
  case Nil
  then show ?case by simp
next
  case (Cons c cs)
  have sw: "startswith s p \<Longrightarrow> set p \<subseteq> set s" for s p
    by (induction s p rule: startswith.induct) auto
  from Cons show ?case using sw [of "c # cs" needle] by auto
qed

lemma set_str_nat: "set (str_nat n) \<subseteq> set ''0123456789''"
proof (induction n rule: str_nat.induct)
  case (1 n)
  have digit: "''0123456789'' ! d \<in> set ''0123456789''" if "d < 10" for d :: nat
    using that nth_mem [of d "''0123456789''"] by simp
  show ?case
  proof (cases "n < 10")
    case True
    then show ?thesis using digit [of n] by (subst str_nat.simps) simp
  next
    case False
    then show ?thesis
      using 1 digit [of "n mod 10"] by (subst str_nat.simps) simp
  qed
qed

lemma str_nat_no_letters: "CHR ''E'' \<notin> set (str_nat n) \<and> CHR ''F'' \<notin> set (str_nat n)"
proof -
  have "CHR ''E'' \<notin> set ''0123456789'' \<and> CHR ''F'' \<notin> set ''0123456789''" by simp
  then show ?thesis using set_str_nat [of n] by blast
qed

lemma str_int_no_letters: "CHR ''E'' \<notin> set (str_int i) \<and> CHR ''F'' \<notin> set (str_int i)"
  using str_nat_no_letters [of "nat i"] str_nat_no_letters [of "nat (- i)"]
  by (simp add: str_int_def)

lemma timeout_message_no_signature:
  "\<not> str_in ''F821'' (''Command timed out after '' @ str_int t @ '' seconds'')
   \<and> \<not> str_in ''E9'' (''Command timed out after '' @ str_int t @ '' seconds'')"
proof -
  let ?msg = "''Command timed out after '' @ str_int t @ '' seconds''"
  have "CHR ''F'' \<notin> set ?msg" "CHR ''E'' \<notin> set ?msg"
    using str_int_no_letters [of t] by simp_all
  moreover have "CHR ''F'' \<in> set ''F821''" "CHR ''E'' \<in> set ''E9''" by simp_all
  ultimately show ?thesis
    using str_in_set [of "''F821''" ?msg] str_in_set [of "''E9''" ?msg] by blast
qed

lemma timeout_no_signature:
  "run c = TimedOut \<Longrightarrow> \<not> has_critical_signature (execute_command run c t)"
  using timeout_message_no_signature [of t]
  by (simp add: has_critical_signature_def execute_command_def del: str_in.simps)

lemma analyze_timeout:
  assumes "\<exists>c \<in> set (run_prefix run t cmds). run c = TimedOut"
  shows "failure_reason (a_result (analyze_results
            (map (\<lambda>c. (command_name c, execute_command run c t)) (run_prefix run t cmds)) st))
           = Some ''timeout''
       \<and> a_failed (analyze_results
            (map (\<lambda>c. (command_name c, execute_command run c t)) (run_prefix run t cmds)) st) \<noteq> []"
  using assms
proof (induction cmds arbitrary: st)
  case Nil
  then show ?case by simp
next
  case (Cons c cs)
  let ?r = "execute_command run c t"
  show ?case
  proof (cases "\<not> r_success ?r \<and> has_critical_signature ?r")
    case True
    then have "run c \<noteq> TimedOut" using timeout_no_signature [of run c t] by auto
    then show ?thesis using Cons.prems True by simp
  next
    case False
    then have rp: "run_prefix run t (c # cs) = c # run_prefix run t cs" by auto
    show ?thesis
    proof (cases "run c = TimedOut")
      case True
      then have "r_timeout ?r" "\<not> r_success ?r" "\<not> has_critical_signature ?r"
        using timeout_no_signature [of run c t]
        by (auto simp: execute_command_def)
      then show ?thesis unfolding rp by (simp add: Let_def)
    next
      case nt: False
      then have ex: "\<exists>c \<in> set (run_prefix run t cs). run c = TimedOut"
        using Cons.prems rp by auto
      have "\<not> r_timeout ?r" using nt by (simp add: timed_out_result)
      then show ?thesis
        using Cons.IH [OF ex] False unfolding rp by (auto simp: Let_def)
    qed
  qed
qed

lemma run_prefix_halts:
  assumes "\<forall>p \<in> set pre. r_success (execute_command run p t)
              \<or> \<not> has_critical_signature (execute_command run p t)"
    and "\<not> r_success (execute_command run c t)" "has_critical_signature (execute_command run c t)"
  shows "run_prefix run t (pre @ c # post) = pre @ [c]"
  using assms by (induction pre) auto

lemma analyze_preserves:
  "executed_checks (a_result (analyze_results rs st)) = executed_checks (a_result st)"
  by (induction rs st rule: analyze_results.induct) (auto simp: Let_def)

lemma aggregate_fields:
  "failed_checks (aggregate rs r0)
     = a_failed (analyze_results rs \<lparr>a_failed = [], a_successful = [], a_details = [], a_result = r0\<rparr>)"
  "successful_checks (aggregate rs r0)
     = a_successful (analyze_results rs \<lparr>a_failed = [], a_successful = [], a_details = [], a_result = r0\<rparr>)"
  "failure_reason (aggregate rs r0)
     = failure_reason (a_result (analyze_results rs \<lparr>a_failed = [], a_successful = [], a_details = [], a_result = r0\<rparr>))"
  "failed_fast (aggregate rs r0)
     = failed_fast (a_result (analyze_results rs \<lparr>a_failed = [], a_successful = [], a_details = [], a_result = r0\<rparr>))"
  "executed_checks (aggregate rs r0) = executed_checks r0"
  "success (aggregate rs r0) = (failed_checks (aggregate rs r0) = [])"
  "partial_success (aggregate rs r0)
     = (successful_checks (aggregate rs r0) \<noteq> [] \<and> failed_checks (aggregate rs r0) \<noteq> [])"
  by (simp_all add: aggregate_def Let_def analyze_preserves)

lemma aggregate_reason:
  "failure_reason r0 = None \<Longrightarrow> failed_checks (aggregate rs r0) = [] \<Longrightarrow>
   failure_reason (aggregate rs r0) = None"
  using analyze_invariant
    [of "\<lparr>a_failed = [], a_successful = [], a_details = [], a_result = r0\<rparr>" rs]
  by (auto simp: aggregate_fields)

lemma execute_tier_dry:
  "fst (execute_tier w tn timeout parallel True) = (initial_result w tn)\<lparr>success := True\<rparr>"
  by (simp add: execute_tier_def Let_def)

lemma initial_result_fields:
  "failure_reason (initial_result w tn) = None" "failed_checks (initial_result w tn) = []"
  "successful_checks (initial_result w tn) = []" "\<not> partial_success (initial_result w tn)"
  by (simp_all add: initial_result_def Let_def)

lemma prepared_reason: "failure_reason (prepared_result w tn timeout) = None"
  by (simp add: prepared_result_def initial_result_fields)

lemma execute_tier_run:
  "execute_tier w tn timeout parallel False =
     (let cr = run_commands w parallel
                 (get_tier_commands tn (detect_package_manager (w_pyproject w)))
                 (resolve_timeout w timeout);
          r = aggregate (fst cr) (prepared_result w tn timeout)
      in if tn = ''full'' \<and> success r
         then (case w_report_error w of
                 None \<Rightarrow> (r, snd cr)
               | Some TimeoutExpired \<Rightarrow>
                   (r\<lparr>success := False, failure_reason := Some ''timeout'',
                      error_details := Some (''Overall execution timed out after ''
                         @ str_int (resolve_timeout w timeout) @ '' seconds'')\<rparr>, snd cr)
               | Some (OtherException e) \<Rightarrow>
                   (r\<lparr>success := False, failure_reason := Some ''execution_error'',
                      error_details := Some e\<rparr>, snd cr))
         else (r, snd cr))"
proof (cases "w_report_error w")
  case None
  then show ?thesis
    by (auto simp: execute_tier_def try_body_def prepared_result_def Let_def
        split: prod.splits)
next
  case (Some e)
  then show ?thesis
    by (cases e)
      (auto simp: execute_tier_def try_body_def prepared_result_def Let_def
        split: prod.splits)
qed

lemma execute_tier_run_abs:
  assumes "R = aggregated_result w tn timeout parallel"
    and "SP = snd (run_commands w parallel
            (get_tier_commands tn (detect_package_manager (w_pyproject w)))
            (resolve_timeout w timeout))"
  shows "execute_tier w tn timeout parallel False =
     (if tn = ''full'' \<and> success R
      then (case w_report_error w of
              None \<Rightarrow> (R, SP)
            | Some TimeoutExpired \<Rightarrow>
                (R\<lparr>success := False, failure_reason := Some ''timeout'',
                   error_details := Some (''Overall execution timed out after ''
                      @ str_int (resolve_timeout w timeout) @ '' seconds'')\<rparr>, SP)
            | Some (OtherException e) \<Rightarrow>
                (R\<lparr>success := False, failure_reason := Some ''execution_error'',
                   error_details := Some e\<rparr>, SP))
      else (R, SP))"
  unfolding assms aggregated_result_def execute_tier_run Let_def ..

lemma execute_tier_spawned:
  "snd (execute_tier w tn timeout parallel False) =
     snd (run_commands w parallel
            (get_tier_commands tn (detect_package_manager (w_pyproject w)))
            (resolve_timeout w timeout))"
proof -
  define R where "R = aggregated_result w tn timeout parallel"
  define SP where "SP = snd (run_commands w parallel
            (get_tier_commands tn (detect_package_manager (w_pyproject w)))
            (resolve_timeout w timeout))"
  show ?thesis
    unfolding SP_def [symmetric] execute_tier_run_abs [OF R_def SP_def]
    by (simp split: option.splits py_exception.splits)
qed

lemma execute_tier_result:
  "fst (execute_tier w tn timeout parallel False) = aggregated_result w tn timeout parallel
   \<or> (success (aggregated_result w tn timeout parallel)
      \<and> (\<exists>reason details. fst (execute_tier w tn timeout parallel False) =
            (aggregated_result w tn timeout parallel)
              \<lparr>success := False, failure_reason := Some reason, error_details := Some details\<rparr>))"
proof -
  define R where "R = aggregated_result w tn timeout parallel"
  define SP where "SP = snd (run_commands w parallel
            (get_tier_commands tn (detect_package_manager (w_pyproject w)))
            (resolve_timeout w timeout))"
  have "fst (execute_tier w tn timeout parallel False) = R
      \<or> (success R \<and> (\<exists>reason details. fst (execute_tier w tn timeout parallel False) =
            R\<lparr>success := False, failure_reason := Some reason, error_details := Some details\<rparr>))"
    unfolding execute_tier_run_abs [OF R_def SP_def]
    by (auto split: option.splits py_exception.splits)
  then show ?thesis unfolding R_def .
qed

lemma aggregated_fields:
  "success (aggregated_result w tn timeout parallel)
     = (failed_checks (aggregated_result w tn timeout parallel) = [])"
  "partial_success (aggregated_result w tn timeout parallel)
     = (successful_checks (aggregated_result w tn timeout parallel) \<noteq> []
        \<and> failed_checks (aggregated_result w tn timeout parallel) \<noteq> [])"
  "failed_checks (aggregated_result w tn timeout parallel) = []
     \<Longrightarrow> failure_reason (aggregated_result w tn timeout parallel) = None"
  unfolding aggregated_result_def
  by (rule aggregate_fields, rule aggregate_fields, rule aggregate_reason [OF prepared_reason])

lemma run_commands_sequential:
  "run_commands w False (get_tier_commands tn m) t =
     (map (\<lambda>c. (command_name c, execute_command (w_run w) c t))
          (run_prefix (w_run w) t (get_tier_commands tn m)),
      run_prefix (w_run w) t (get_tier_commands tn m))"
  using sequential_eq [OF tier_names_distinct, of tn m "[]" "w_run w" t "[]"]
  by (simp add: run_commands_def)

lemma run_commands_parallel:
  assumes "distinct (w_completion w (get_tier_commands tn m))"
    and "set (w_completion w (get_tier_commands tn m)) \<subseteq> set (get_tier_commands tn m)"
  shows "fst (run_commands w True (get_tier_commands tn m) t) =
     map (\<lambda>c. (command_name c, execute_command (w_run w) c t))
         (w_completion w (get_tier_commands tn m))"
proof -
  have "inj_on command_name (set (get_tier_commands tn m))"
    using tier_names_distinct [of tn m] by (simp add: distinct_map)
  then have "inj_on command_name (set (w_completion w (get_tier_commands tn m)))"
    using assms(2) by (rule inj_on_subset)
  then have "distinct (map command_name (w_completion w (get_tier_commands tn m)))"
    using assms(1) by (simp add: distinct_map)
  from parallel_eq [OF this, of "[]" "w_run w" t]
  show ?thesis by (simp add: run_commands_def execute_commands_parallel_def)
qed

text \<open>
  Claim C2 (amended). On every return path of execute\_tier, success is true if and only
  if failed\_checks is empty and no failure\_reason is set, and partial\_success implies
  that success is false.
\<close>

theorem success_iff_no_failure_recorded:
  "success (fst (execute_tier w tn timeout parallel dry_run))
     = (failed_checks (fst (execute_tier w tn timeout parallel dry_run)) = []
        \<and> failure_reason (fst (execute_tier w tn timeout parallel dry_run)) = None)
   \<and> (partial_success (fst (execute_tier w tn timeout parallel dry_run))
        \<longrightarrow> \<not> success (fst (execute_tier w tn timeout parallel dry_run)))"
proof (cases dry_run)
  case True
  then show ?thesis by (simp add: execute_tier_dry initial_result_fields)
next
  case False
  show ?thesis
    using execute_tier_result [of w tn timeout parallel]
      aggregated_fields [of w tn timeout parallel] False
    by auto
qed

text \<open>
  Claim C9 (amended). On every return path of execute\_tier, partial\_success is true if
  and only if successful\_checks and failed\_checks are both non-empty, whether or not
  the run failed fast or timed out.
\<close>

theorem partial_success_iff_both_nonempty:
  "partial_success (fst (execute_tier w tn timeout parallel dry_run))
     = (successful_checks (fst (execute_tier w tn timeout parallel dry_run)) \<noteq> []
        \<and> failed_checks (fst (execute_tier w tn timeout parallel dry_run)) \<noteq> [])"
proof (cases dry_run)
  case True
  then show ?thesis by (simp add: execute_tier_dry initial_result_fields)
next
  case False
  show ?thesis
    using execute_tier_result [of w tn timeout parallel]
      aggregated_fields(2) [of w tn timeout parallel] False
    by auto
qed

lemma run_prefix_continues:
  assumes "\<forall>p \<in> set pre. r_success (execute_command run p t)
              \<or> \<not> has_critical_signature (execute_command run p t)"
    and "r_success (execute_command run c t) \<or> \<not> has_critical_signature (execute_command run c t)"
  shows "run_prefix run t (pre @ c # post) = pre @ c # run_prefix run t post"
  using assms by (induction pre) auto

lemma run_prefix_first: "set (take 1 cmds) \<subseteq> set (run_prefix run t cmds)"
  by (cases cmds) auto

lemma aggregated_lists:
  "executed_checks (aggregated_result w tn timeout parallel)
     = map command_name (get_tier_commands tn (detect_package_manager (w_pyproject w)))"
  by (simp add: aggregated_result_def aggregate_fields prepared_result_def tier_last_words)

lemma execute_tier_lists:
  "executed_checks (fst (execute_tier w tn timeout parallel False))
     = executed_checks (aggregated_result w tn timeout parallel)"
  "successful_checks (fst (execute_tier w tn timeout parallel False))
     = successful_checks (aggregated_result w tn timeout parallel)"
  "failed_checks (fst (execute_tier w tn timeout parallel False))
     = failed_checks (aggregated_result w tn timeout parallel)"
  "failed_fast (fst (execute_tier w tn timeout parallel False))
     = failed_fast (aggregated_result w tn timeout parallel)"
  using execute_tier_result [of w tn timeout parallel] by auto

lemma execute_tier_failed:
  "failed_checks (aggregated_result w tn timeout parallel) \<noteq> [] \<Longrightarrow>
   fst (execute_tier w tn timeout parallel False) = aggregated_result w tn timeout parallel"
  using execute_tier_result [of w tn timeout parallel]
    aggregated_fields(1) [of w tn timeout parallel] by auto

text \<open>
  Claim C1 (amended). In a sequential run, when the first check whose failure output
  carries a zero-tolerance signature ("F821" or "E9" in stderr) is reached, execution
  halts: exactly the commands up to and including it are run. The checks that were not
  run are absent from successful\_checks and failed\_checks; executed\_checks, however,
  is filled before anything runs and lists every check of the tier.
\<close>

theorem fail_fast_halts_sequence:
  assumes "get_tier_commands tn (detect_package_manager (w_pyproject w)) = pre @ c # post"
    and "\<forall>p \<in> set pre. r_success (execute_command (w_run w) p (resolve_timeout w timeout))
           \<or> \<not> has_critical_signature (execute_command (w_run w) p (resolve_timeout w timeout))"
    and "\<not> r_success (execute_command (w_run w) c (resolve_timeout w timeout))"
    and "has_critical_signature (execute_command (w_run w) c (resolve_timeout w timeout))"
  shows "snd (execute_tier w tn timeout False False) = pre @ [c]
       \<and> executed_checks (fst (execute_tier w tn timeout False False))
           = map command_name (pre @ c # post)
       \<and> set (successful_checks (fst (execute_tier w tn timeout False False)))
           \<union> set (failed_checks (fst (execute_tier w tn timeout False False)))
           \<subseteq> command_name ` set (pre @ [c])"
proof -
  let ?t = "resolve_timeout w timeout"
  let ?m = "detect_package_manager (w_pyproject w)"
  have rp: "run_prefix (w_run w) ?t (get_tier_commands tn ?m) = pre @ [c]"
    unfolding assms(1) by (rule run_prefix_halts [OF assms(2,3,4)])
  have rc: "run_commands w False (get_tier_commands tn ?m) ?t =
      (map (\<lambda>c. (command_name c, execute_command (w_run w) c ?t)) (pre @ [c]), pre @ [c])"
    using run_commands_sequential [of w tn ?m ?t] rp by simp
  have sp: "snd (execute_tier w tn timeout False False) = pre @ [c]"
    by (simp add: execute_tier_spawned rc)
  have ex: "executed_checks (fst (execute_tier w tn timeout False False))
      = map command_name (pre @ c # post)"
    by (simp only: execute_tier_lists aggregated_lists assms(1))
  have "set (successful_checks (aggregated_result w tn timeout False))
        \<union> set (failed_checks (aggregated_result w tn timeout False))
      \<subseteq> fst ` set (map (\<lambda>c. (command_name c, execute_command (w_run w) c ?t)) (pre @ [c]))"
    using analyze_keys [of "map (\<lambda>c. (command_name c, execute_command (w_run w) c ?t)) (pre @ [c])"
        "\<lparr>a_failed = [], a_successful = [], a_details = [],
          a_result = prepared_result w tn timeout\<rparr>"]
    by (simp add: aggregated_result_def aggregate_fields rc Un_commute)
  moreover have "fst ` set (map (\<lambda>c. (command_name c, execute_command (w_run w) c ?t)) (pre @ [c]))
      = command_name ` set (pre @ [c])"
    by (simp add: image_image)
  ultimately have ks: "set (successful_checks (fst (execute_tier w tn timeout False False)))
        \<union> set (failed_checks (fst (execute_tier w tn timeout False False)))
      \<subseteq> command_name ` set (pre @ [c])"
    by (simp only: execute_tier_lists)
  show ?thesis using sp ex ks by blast
qed

text \<open>
  Claim C5 (amended). When, in the order in which the results are aggregated (the tier's
  order in sequential mode, the completion order in parallel mode), a check fails with a
  zero-tolerance signature and no failed check before it carries a signature or timed
  out, the result has failed\_fast set and failure\_reason "critical\_lint\_violations".
\<close>

theorem critical_signature_sets_failed_fast:
  assumes "cmds = get_tier_commands tn (detect_package_manager (w_pyproject w))"
    and "(if parallel then w_completion w cmds else cmds) = pre @ c # post"
    and "parallel \<longrightarrow> distinct (w_completion w cmds) \<and> set (w_completion w cmds) \<subseteq> set cmds"
    and "\<forall>p \<in> set pre. r_success (execute_command (w_run w) p (resolve_timeout w timeout))
           \<or> (\<not> has_critical_signature (execute_command (w_run w) p (resolve_timeout w timeout))
              \<and> \<not> r_timeout (execute_command (w_run w) p (resolve_timeout w timeout)))"
    and "\<not> r_success (execute_command (w_run w) c (resolve_timeout w timeout))"
    and "has_critical_signature (execute_command (w_run w) c (resolve_timeout w timeout))"
  shows "failed_fast (fst (execute_tier w tn timeout parallel False))
       \<and> failure_reason (fst (execute_tier w tn timeout parallel False))
           = Some ''critical_lint_violations''"
proof -
  let ?t = "resolve_timeout w timeout"
  let ?g = "\<lambda>c. (command_name c, execute_command (w_run w) c ?t)"
  have "\<exists>rest. fst (run_commands w parallel cmds ?t) = map ?g pre @ ?g c # rest"
  proof (cases parallel)
    case True
    then have "fst (run_commands w True cmds ?t) = map ?g (pre @ c # post)"
      using run_commands_parallel [of w tn "detect_package_manager (w_pyproject w)" ?t]
        assms(1,2,3) by simp
    then show ?thesis using True by simp
  next
    case False
    then have "cmds = pre @ c # post" using assms(2) by simp
    moreover have "\<forall>p \<in> set pre. r_success (execute_command (w_run w) p ?t)
           \<or> \<not> has_critical_signature (execute_command (w_run w) p ?t)"
      using assms(4) by blast
    ultimately have "run_prefix (w_run w) ?t cmds = pre @ [c]"
      using run_prefix_halts [OF _ assms(5,6), of pre post] by simp
    then have "fst (run_commands w False cmds ?t) = map ?g (pre @ [c])"
      using run_commands_sequential [of w tn "detect_package_manager (w_pyproject w)" ?t]
        assms(1) by simp
    then show ?thesis using False by simp
  qed
  then obtain rest where rs: "fst (run_commands w parallel cmds ?t) = map ?g pre @ ?g c # rest"
    by blast
  have nd: "\<forall>p \<in> set (map ?g pre). \<not> decisive (snd p)"
    using assms(4) by (auto simp: decisive_def)
  have an: "failed_fast (aggregated_result w tn timeout parallel)
      \<and> failure_reason (aggregated_result w tn timeout parallel) = Some ''critical_lint_violations''
      \<and> failed_checks (aggregated_result w tn timeout parallel) \<noteq> []"
    using analyze_critical [OF nd assms(5,6), of "command_name c" rest
        "\<lparr>a_failed = [], a_successful = [], a_details = [],
          a_result = prepared_result w tn timeout\<rparr>"]
    unfolding aggregated_result_def aggregate_fields assms(1) [symmetric] rs by simp
  then have "fst (execute_tier w tn timeout parallel False) = aggregated_result w tn timeout parallel"
    using execute_tier_failed by blast
  then show ?thesis using an by simp
qed

lemma run_prefix_all:
  "\<forall>q \<in> set cmds. r_success (execute_command run q t)
       \<or> \<not> has_critical_signature (execute_command run q t) \<Longrightarrow>
   run_prefix run t cmds = cmds"
  by (induction cmds) auto

text \<open>
  Claim C6 (amended). In a sequential run in which a command that is reached times out,
  the result has failure\_reason "timeout" and success false. The timeout does not halt
  the sequence: the commands after the timed-out one are run as well, up to and
  including the first of them that fails with a zero-tolerance signature, and all of
  them when none does.
\<close>

theorem sequential_timeout_reported:
  assumes "get_tier_commands tn (detect_package_manager (w_pyproject w)) = pre @ c # post"
    and "\<forall>p \<in> set pre. r_success (execute_command (w_run w) p (resolve_timeout w timeout))
           \<or> \<not> has_critical_signature (execute_command (w_run w) p (resolve_timeout w timeout))"
    and "w_run w c = TimedOut"
  shows "failure_reason (fst (execute_tier w tn timeout False False)) = Some ''timeout''
       \<and> \<not> success (fst (execute_tier w tn timeout False False))
       \<and> snd (execute_tier w tn timeout False False)
           = pre @ c # run_prefix (w_run w) (resolve_timeout w timeout) post
       \<and> ((\<forall>q \<in> set post. r_success (execute_command (w_run w) q (resolve_timeout w timeout))
              \<or> \<not> has_critical_signature
                   (execute_command (w_run w) q (resolve_timeout w timeout)))
            \<longrightarrow> snd (execute_tier w tn timeout False False) = pre @ c # post)
       \<and> (\<forall>mid d rest.
             post = mid @ d # rest
             \<and> (\<forall>q \<in> set mid. r_success (execute_command (w_run w) q (resolve_timeout w timeout))
                   \<or> \<not> has_critical_signature
                        (execute_command (w_run w) q (resolve_timeout w timeout)))
             \<and> \<not> r_success (execute_command (w_run w) d (resolve_timeout w timeout))
             \<and> has_critical_signature (execute_command (w_run w) d (resolve_timeout w timeout))
            \<longrightarrow> snd (execute_tier w tn timeout False False) = pre @ c # mid @ [d])
       \<and> set (pre @ c # take 1 post) \<subseteq> set (snd (execute_tier w tn timeout False False))"
proof -
  let ?t = "resolve_timeout w timeout"
  let ?m = "detect_package_manager (w_pyproject w)"
  let ?cmds = "get_tier_commands tn ?m"
  have nc: "r_success (execute_command (w_run w) c ?t)
      \<or> \<not> has_critical_signature (execute_command (w_run w) c ?t)"
    using timeout_no_signature [of "w_run w" c ?t] assms(3) by simp
  have rp: "run_prefix (w_run w) ?t ?cmds = pre @ c # run_prefix (w_run w) ?t post"
    unfolding assms(1) by (rule run_prefix_continues [OF assms(2) nc])
  then have ex: "\<exists>c \<in> set (run_prefix (w_run w) ?t ?cmds). w_run w c = TimedOut"
    using assms(3) by auto
  have an: "failure_reason (aggregated_result w tn timeout False) = Some ''timeout''
      \<and> failed_checks (aggregated_result w tn timeout False) \<noteq> []"
    using analyze_timeout [OF ex, of "\<lparr>a_failed = [], a_successful = [], a_details = [],
          a_result = prepared_result w tn timeout\<rparr>"]
    unfolding aggregated_result_def aggregate_fields run_commands_sequential by simp
  then have eq: "fst (execute_tier w tn timeout False False) = aggregated_result w tn timeout False"
    using execute_tier_failed by blast
  have ns: "\<not> success (aggregated_result w tn timeout False)"
    using an aggregated_fields(1) [of w tn timeout False] by simp
  have exact: "snd (execute_tier w tn timeout False False)
      = pre @ c # run_prefix (w_run w) ?t post"
    by (simp add: execute_tier_spawned run_commands_sequential rp)
  have all: "snd (execute_tier w tn timeout False False) = pre @ c # post"
    if "\<forall>q \<in> set post. r_success (execute_command (w_run w) q ?t)
          \<or> \<not> has_critical_signature (execute_command (w_run w) q ?t)"
    using exact run_prefix_all [OF that] by simp
  have upto: "snd (execute_tier w tn timeout False False) = pre @ c # mid @ [d]"
    if "post = mid @ d # rest"
      and "\<forall>q \<in> set mid. r_success (execute_command (w_run w) q ?t)
          \<or> \<not> has_critical_signature (execute_command (w_run w) q ?t)"
      and "\<not> r_success (execute_command (w_run w) d ?t)"
      and "has_critical_signature (execute_command (w_run w) d ?t)"
    for mid d rest
    using exact run_prefix_halts [OF that(2,3,4), of rest] that(1) by simp
  have sp: "set (pre @ c # take 1 post) \<subseteq> set (snd (execute_tier w tn timeout False False))"
    using exact run_prefix_first [of post "w_run w" ?t] by auto
  show ?thesis
    using an ns exact all upto sp unfolding eq by blast
qed

lemma essential_pip:
  "get_tier_commands ''essential'' (detect_package_manager None)
     = [''python -m test'', ''python -m lint'', ''python -m typecheck'']"
  by (simp add: get_tier_commands_def detect_package_manager_def base_commands_def Let_def)

lemma lint_f821_run:
  "execute_tier lint_f821 ''essential'' None False False =
     (\<lparr>success = False, tier = ''essential'',
       executed_checks = [''test'', ''lint'', ''typecheck''],
       failed_checks = [''lint''], successful_checks = [''test''],
       failure_reason = Some ''critical_lint_violations'',
       error_details = Some ''F821 undefined name'', failed_fast = True,
       timeout_seconds = Some 120, partial_success = True,
       environment = Some ''pip-essential'', compatibility_check = True\<rparr>,
      [''python -m test'', ''python -m lint''])"
  by code_simp

lemma test_timeout_run:
  "execute_tier test_timeout ''essential'' (Some 5) False False =
     (\<lparr>success = False, tier = ''essential'',
       executed_checks = [''test'', ''lint'', ''typecheck''],
       failed_checks = [''test''], successful_checks = [],
       failure_reason = Some ''timeout'',
       error_details = Some ''Command test timed out'', failed_fast = False,
       timeout_seconds = Some 5, partial_success = False,
       environment = Some ''pip-essential'', compatibility_check = True\<rparr>,
      [''python -m test'', ''python -m lint'', ''python -m typecheck''])"
  by code_simp

lemma reports_unwritable_run:
  "fst (execute_tier reports_unwritable ''full'' None True False) =
     \<lparr>success = False, tier = ''full'',
       executed_checks = [''test'', ''lint'', ''typecheck'', ''security-scan'', ''check-all''],
       failed_checks = [],
       successful_checks = [''test'', ''lint'', ''typecheck'', ''security-scan'', ''check-all''],
       failure_reason = Some ''execution_error'',
       error_details = Some ''[Errno 13] Permission denied: reports'', failed_fast = False,
       timeout_seconds = Some 120, partial_success = False,
       environment = Some ''pip-full'', compatibility_check = True\<rparr>"
  by code_simp

lemma timeout_then_f821_run:
  "execute_tier timeout_then_f821 ''essential'' None False False =
     (\<lparr>success = False, tier = ''essential'',
       executed_checks = [''test'', ''lint'', ''typecheck''],
       failed_checks = [''test''], successful_checks = [],
       failure_reason = Some ''timeout'',
       error_details = Some ''Command test timed out'', failed_fast = False,
       timeout_seconds = Some 120, partial_success = False,
       environment = Some ''pip-essential'', compatibility_check = True\<rparr>,
      [''python -m test'', ''python -m lint''])"
  by code_simp

lemma lint_f821_outcomes:
  "r_success (execute_command (w_run lint_f821) ''python -m test'' (resolve_timeout lint_f821 None))"
  "\<not> r_success (execute_command (w_run lint_f821) ''python -m lint'' (resolve_timeout lint_f821 None))"
  "has_critical_signature (execute_command (w_run lint_f821) ''python -m lint'' (resolve_timeout lint_f821 None))"
  "w_pyproject lint_f821 = None"
  by (simp_all add: lint_f821_def execute_command_def has_critical_signature_def)

lemma test_timeout_outcomes:
  "w_run test_timeout ''python -m test'' = TimedOut" "w_pyproject test_timeout = None"
  by (simp_all add: test_timeout_def)

lemma timeout_then_f821_outcomes:
  "\<not> r_success (execute_command (w_run timeout_then_f821) ''python -m lint'' 120)"
  "has_critical_signature (execute_command (w_run timeout_then_f821) ''python -m lint'' 120)"
  by (simp_all add: timeout_then_f821_def execute_command_def has_critical_signature_def)

lemma lint_f821_timeout: "resolve_timeout lint_f821 None = 120"
  by (simp add: resolve_timeout_def lint_f821_def default_timeouts_def)

text \<open>
  Claim C1 as stated fails: with an essential tier whose lint command reports F821,
  typecheck is never run and still appears in executed\_checks.
\<close>

theorem executed_checks_lists_unrun_check:
  "\<not> r_success (execute_command (w_run lint_f821) ''python -m lint'' 120)
   \<and> has_critical_signature (execute_command (w_run lint_f821) ''python -m lint'' 120)
   \<and> ''python -m typecheck'' \<notin> set (snd (execute_tier lint_f821 ''essential'' None False False))
   \<and> ''typecheck'' \<in> set (executed_checks (fst (execute_tier lint_f821 ''essential'' None False False)))"
  using lint_f821_outcomes(2,3) unfolding lint_f821_timeout lint_f821_run by simp

theorem fail_fast_halts_sequence_witness:
  "get_tier_commands ''essential'' (detect_package_manager (w_pyproject lint_f821))
     = [''python -m test''] @ ''python -m lint'' # [''python -m typecheck'']
   \<and> \<not> r_success (execute_command (w_run lint_f821) ''python -m lint''
          (resolve_timeout lint_f821 None))
   \<and> has_critical_signature (execute_command (w_run lint_f821) ''python -m lint''
          (resolve_timeout lint_f821 None))
   \<and> snd (execute_tier lint_f821 ''essential'' None False False)
       = [''python -m test''] @ [''python -m lint'']
   \<and> executed_checks (fst (execute_tier lint_f821 ''essential'' None False False))
       = map command_name ([''python -m test''] @ ''python -m lint'' # [''python -m typecheck''])"
proof -
  have h1: "get_tier_commands ''essential'' (detect_package_manager (w_pyproject lint_f821))
      = [''python -m test''] @ ''python -m lint'' # [''python -m typecheck'']"
    by (simp add: lint_f821_outcomes(4) essential_pip)
  have h2: "\<forall>p \<in> set [''python -m test''].
      r_success (execute_command (w_run lint_f821) p (resolve_timeout lint_f821 None))
      \<or> \<not> has_critical_signature (execute_command (w_run lint_f821) p (resolve_timeout lint_f821 None))"
    using lint_f821_outcomes(1) by simp
  show ?thesis
    using h1 lint_f821_outcomes(2,3) fail_fast_halts_sequence [OF h1 h2 lint_f821_outcomes(2,3)] by blast
qed

text \<open>
  Claim C2 as stated fails: when all checks of the full tier pass and writing the reports
  raises, the result has success false although failed\_checks is empty.
\<close>

theorem caught_exception_breaks_success_iff:
  "\<not> (success (fst (execute_tier reports_unwritable ''full'' None True False))
        = (failed_checks (fst (execute_tier reports_unwritable ''full'' None True False)) = []))
   \<and> failure_reason (fst (execute_tier reports_unwritable ''full'' None True False))
       = Some ''execution_error''"
  unfolding reports_unwritable_run by simp

theorem success_iff_no_failure_recorded_witness:
  "partial_success (fst (execute_tier lint_f821 ''essential'' None False False))
   \<and> \<not> success (fst (execute_tier lint_f821 ''essential'' None False False))"
proof -
  have p: "partial_success (fst (execute_tier lint_f821 ''essential'' None False False))"
    unfolding lint_f821_run by simp
  then show ?thesis
    using success_iff_no_failure_recorded [of lint_f821 "''essential''" None False False] by blast
qed

text \<open>
  Claim C5 as stated fails: the reason recorded is "critical\_lint\_violations", not
  "critical\_lint\_violation"; and when the test command times out before lint fails
  with F821, the reason is "timeout" and failed\_fast stays false.
\<close>

theorem critical_reason_counterexample:
  "failure_reason (fst (execute_tier lint_f821 ''essential'' None False False))
     \<noteq> Some ''critical_lint_violation''
   \<and> \<not> r_success (execute_command (w_run timeout_then_f821) ''python -m lint'' 120)
   \<and> has_critical_signature (execute_command (w_run timeout_then_f821) ''python -m lint'' 120)
   \<and> ''python -m lint'' \<in> set (snd (execute_tier timeout_then_f821 ''essential'' None False False))
   \<and> \<not> failed_fast (fst (execute_tier timeout_then_f821 ''essential'' None False False))
   \<and> failure_reason (fst (execute_tier timeout_then_f821 ''essential'' None False False))
       = Some ''timeout''"
  using timeout_then_f821_outcomes unfolding lint_f821_run timeout_then_f821_run by simp

theorem critical_signature_sets_failed_fast_witness:
  "w_completion lint_f821
      (get_tier_commands ''essential'' (detect_package_manager (w_pyproject lint_f821)))
     = [''python -m test''] @ ''python -m lint'' # [''python -m typecheck'']
   \<and> \<not> r_success (execute_command (w_run lint_f821) ''python -m lint''
          (resolve_timeout lint_f821 None))
   \<and> has_critical_signature (execute_command (w_run lint_f821) ''python -m lint''
          (resolve_timeout lint_f821 None))
   \<and> failed_fast (fst (execute_tier lint_f821 ''essential'' None True False))
   \<and> failure_reason (fst (execute_tier lint_f821 ''essential'' None True False))
       = Some ''critical_lint_violations''"
proof -
  let ?cmds = "get_tier_commands ''essential'' (detect_package_manager (w_pyproject lint_f821))"
  have cmds: "?cmds = [''python -m test'', ''python -m lint'', ''python -m typecheck'']"
    by (simp add: lint_f821_outcomes(4) essential_pip)
  have comp: "w_completion lint_f821 xs = xs" for xs by (simp add: lint_f821_def)
  have h2: "(if True then w_completion lint_f821 ?cmds else ?cmds)
      = [''python -m test''] @ ''python -m lint'' # [''python -m typecheck'']"
    by (simp add: comp cmds)
  have h3: "True \<longrightarrow> distinct (w_completion lint_f821 ?cmds)
      \<and> set (w_completion lint_f821 ?cmds) \<subseteq> set ?cmds"
    by (simp add: comp cmds)
  have h4: "\<forall>p \<in> set [''python -m test''].
      r_success (execute_command (w_run lint_f821) p (resolve_timeout lint_f821 None))
      \<or> (\<not> has_critical_signature (execute_command (w_run lint_f821) p (resolve_timeout lint_f821 None))
         \<and> \<not> r_timeout (execute_command (w_run lint_f821) p (resolve_timeout lint_f821 None)))"
    using lint_f821_outcomes(1) by simp
  show ?thesis
    using h2 lint_f821_outcomes(2,3) critical_signature_sets_failed_fast [OF refl h2 h3 h4 lint_f821_outcomes(2,3)] by simp
qed

text \<open>
  Claim C6 as stated fails: after the test command has timed out, lint and typecheck are
  still run.
\<close>

theorem timeout_does_not_halt_sequence:
  "w_run test_timeout ''python -m test'' = TimedOut
   \<and> snd (execute_tier test_timeout ''essential'' (Some 5) False False)
       = [''python -m test'', ''python -m lint'', ''python -m typecheck'']"
  using test_timeout_outcomes(1) unfolding test_timeout_run by simp

lemma lint_timeout_outcomes:
  "r_success (execute_command (w_run lint_timeout) ''python -m test''
      (resolve_timeout lint_timeout None))"
  "r_success (execute_command (w_run lint_timeout) ''python -m typecheck''
      (resolve_timeout lint_timeout None))"
  "w_run lint_timeout ''python -m lint'' = TimedOut"
  "w_pyproject lint_timeout = None"
  by (simp_all add: lint_timeout_def execute_command_def)

theorem sequential_timeout_reported_witness:
  "get_tier_commands ''essential'' (detect_package_manager (w_pyproject lint_timeout))
     = [''python -m test''] @ ''python -m lint'' # [''python -m typecheck'']
   \<and> r_success (execute_command (w_run lint_timeout) ''python -m test''
         (resolve_timeout lint_timeout None))
   \<and> w_run lint_timeout ''python -m lint'' = TimedOut
   \<and> r_success (execute_command (w_run lint_timeout) ''python -m typecheck''
         (resolve_timeout lint_timeout None))
   \<and> failure_reason (fst (execute_tier lint_timeout ''essential'' None False False))
       = Some ''timeout''
   \<and> \<not> success (fst (execute_tier lint_timeout ''essential'' None False False))
   \<and> snd (execute_tier lint_timeout ''essential'' None False False)
       = [''python -m test''] @ ''python -m lint'' # [''python -m typecheck'']"
proof -
  have h1: "get_tier_commands ''essential'' (detect_package_manager (w_pyproject lint_timeout))
      = [''python -m test''] @ ''python -m lint'' # [''python -m typecheck'']"
    by (simp add: lint_timeout_outcomes(4) essential_pip)
  have h2: "\<forall>p \<in> set [''python -m test''].
      r_success (execute_command (w_run lint_timeout) p (resolve_timeout lint_timeout None))
      \<or> \<not> has_critical_signature
           (execute_command (w_run lint_timeout) p (resolve_timeout lint_timeout None))"
    using lint_timeout_outcomes(1) by simp
  have h3: "\<forall>q \<in> set [''python -m typecheck''].
      r_success (execute_command (w_run lint_timeout) q (resolve_timeout lint_timeout None))
      \<or> \<not> has_critical_signature
           (execute_command (w_run lint_timeout) q (resolve_timeout lint_timeout None))"
    using lint_timeout_outcomes(2) by simp
  show ?thesis
    using h1 h3 lint_timeout_outcomes(1,2,3)
      sequential_timeout_reported [OF h1 h2 lint_timeout_outcomes(3)]
    by blast
qed

text \<open>
  Claim C9 as stated fails: a run that failed fast on lint after a passing test has
  partial\_success true.
\<close>

theorem partial_success_despite_failed_fast:
  "partial_success (fst (execute_tier lint_f821 ''essential'' None False False))
   \<and> failed_fast (fst (execute_tier lint_f821 ''essential'' None False False))"
  unfolding lint_f821_run by simp

end
